theory Spec2Isabelle
  imports Complex_Main
begin

section \<open>Numbers\<close>

text \<open>
  The engine computes with Python and numpy floats. Rounding and the sign of zero are
  not modelled: a finite float is a real number. What IEEE arithmetic adds to the reals
  is kept, because the source relies on it (\<^verbatim>\<open>float('inf')\<close>, \<^verbatim>\<open>float('-inf')\<close>,
  the NaN that \<^verbatim>\<open>pct_change\<close> puts first, \<^verbatim>\<open>dropna\<close>): the two infinities and NaN.
  Division of numpy floats by zero does not raise; it yields an infinity or NaN.

  Since a sum, product or quotient of floats is rounded, the results on runs are
  stated of the values as the code computes them, operation by operation, and of
  comparisons that rounding keeps (a sum with a term that is not negative is not
  below the other term). No identity that holds of the reals only, such as
  \<open>a * (b / a) = b\<close>, and no strict inequality between a sum and its term is stated.
\<close>

datatype pyfloat = Fin real | PInf | NInf | NaN

fun fneg :: "pyfloat \<Rightarrow> pyfloat" where
  "fneg (Fin a) = Fin (- a)"
| "fneg PInf = NInf"
| "fneg NInf = PInf"
| "fneg NaN = NaN"

fun fadd :: "pyfloat \<Rightarrow> pyfloat \<Rightarrow> pyfloat" where
  "fadd NaN y = NaN"
| "fadd x NaN = NaN"
| "fadd (Fin a) (Fin b) = Fin (a + b)"
| "fadd PInf NInf = NaN"
| "fadd NInf PInf = NaN"
| "fadd PInf y = PInf"
| "fadd x PInf = PInf"
| "fadd NInf y = NInf"
| "fadd x NInf = NInf"

definition fsub :: "pyfloat \<Rightarrow> pyfloat \<Rightarrow> pyfloat" where
  "fsub x y = fadd x (fneg y)"

text \<open>The sign of a value that is not NaN: \<open>-1\<close>, \<open>0\<close> or \<open>1\<close>.\<close>

fun fsign :: "pyfloat \<Rightarrow> int" where
  "fsign (Fin a) = (if a < 0 then - 1 else if a = 0 then 0 else 1)"
| "fsign PInf = 1"
| "fsign NInf = - 1"
| "fsign NaN = 0"

definition signed_inf :: "int \<Rightarrow> pyfloat" where
  "signed_inf s = (if s < 0 then NInf else if s = 0 then NaN else PInf)"

fun fmul :: "pyfloat \<Rightarrow> pyfloat \<Rightarrow> pyfloat" where
  "fmul NaN y = NaN"
| "fmul x NaN = NaN"
| "fmul (Fin a) (Fin b) = Fin (a * b)"
| "fmul x y = signed_inf (fsign x * fsign y)"

text \<open>
  numpy division. A finite value over zero is an infinity of the sign of the numerator
  (zero counts as \<open>+0\<close>), zero over zero and infinity over infinity are NaN.
\<close>

fun fdiv :: "pyfloat \<Rightarrow> pyfloat \<Rightarrow> pyfloat" where
  "fdiv NaN y = NaN"
| "fdiv x NaN = NaN"
| "fdiv (Fin a) (Fin b) = (if b = 0 then signed_inf (fsign (Fin a)) else Fin (a / b))"
| "fdiv (Fin a) y = Fin 0"
| "fdiv x (Fin b) = signed_inf (fsign x * (if b < 0 then - 1 else 1))"
| "fdiv x y = NaN"

text \<open>IEEE comparisons: every comparison with NaN is false.\<close>

fun flt :: "pyfloat \<Rightarrow> pyfloat \<Rightarrow> bool" where
  "flt NaN y = False"
| "flt x NaN = False"
| "flt (Fin a) (Fin b) = (a < b)"
| "flt x NInf = False"
| "flt PInf y = False"
| "flt NInf y = True"
| "flt x PInf = True"

fun fle :: "pyfloat \<Rightarrow> pyfloat \<Rightarrow> bool" where
  "fle NaN y = False"
| "fle x NaN = False"
| "fle (Fin a) (Fin b) = (a \<le> b)"
| "fle NInf y = True"
| "fle x PInf = True"
| "fle x NInf = False"
| "fle PInf y = False"

definition fgt :: "pyfloat \<Rightarrow> pyfloat \<Rightarrow> bool" where
  "fgt x y = flt y x"

fun fsqrt :: "pyfloat \<Rightarrow> pyfloat" where
  "fsqrt (Fin a) = (if a < 0 then NaN else Fin (sqrt a))"
| "fsqrt PInf = PInf"
| "fsqrt NInf = NaN"
| "fsqrt NaN = NaN"

fun flog :: "pyfloat \<Rightarrow> pyfloat" where
  "flog (Fin a) = (if a < 0 then NaN else if a = 0 then NInf else Fin (ln a))"
| "flog PInf = PInf"
| "flog NInf = NaN"
| "flog NaN = NaN"

fun is_nan :: "pyfloat \<Rightarrow> bool" where
  "is_nan NaN = True"
| "is_nan x = False"

section \<open>Errors\<close>

text \<open>
  The exceptions of the modelled code. \<open>DataUnavailableError\<close> and \<open>DataFormatError\<close>
  are the names the specification uses; no class of these names exists in the sources.
  \<open>StrategyError\<close> stands for whatever a strategy's \<^verbatim>\<open>get_recommendation\<close> or the
  data source raises.
\<close>

datatype error =
    ValueError | IndexError | ZeroDivisionError | KeyError | TypeError
  | DataUnavailableError | DataFormatError | StrategyError string

section \<open>Market data\<close>

text \<open>
  A DataFrame as \<^verbatim>\<open>load_data\<close> returns it: the names of its columns and its rows, one
  bar per row, indexed by a timestamp. Cells hold numbers (no missing values), so the
  forward fill of \<^verbatim>\<open>preprocess_data\<close> changes nothing.
\<close>

record bar =
  bar_timestamp :: int
  bar_open :: real
  bar_high :: real
  bar_low :: real
  bar_close :: real
  bar_volume :: real

record table =
  columns :: "string list"
  bars :: "bar list"

text \<open>A row of the preprocessed frame: the bar and the two columns added.\<close>

record row = bar +
  returns :: pyfloat
  log_returns :: pyfloat

definition required_columns :: "string list" where
  "required_columns = [''open'', ''high'', ''low'', ''close'', ''volume'']"

text \<open>\<^verbatim>\<open>data[~data.index.duplicated(keep='first')]\<close>: the first row of each timestamp.\<close>

fun drop_duplicated :: "int list \<Rightarrow> bar list \<Rightarrow> bar list" where
  "drop_duplicated seen [] = []"
| "drop_duplicated seen (b # bs) =
     (if bar_timestamp b \<in> set seen then drop_duplicated seen bs
      else b # drop_duplicated (bar_timestamp b # seen) bs)"

text \<open>\<^verbatim>\<open>Series.pct_change()\<close>: \<open>x / previous - 1\<close>, NaN in the first place.\<close>

fun pct_change_from :: "real \<Rightarrow> real list \<Rightarrow> pyfloat list" where
  "pct_change_from prev [] = []"
| "pct_change_from prev (x # xs) =
     fsub (fdiv (Fin x) (Fin prev)) (Fin 1) # pct_change_from x xs"

definition pct_change :: "real list \<Rightarrow> pyfloat list" where
  "pct_change xs = (case xs of [] \<Rightarrow> [] | x # rest \<Rightarrow> NaN # pct_change_from x rest)"

text \<open>\<^verbatim>\<open>np.log(close / close.shift(1))\<close>.\<close>

fun log_change_from :: "real \<Rightarrow> real list \<Rightarrow> pyfloat list" where
  "log_change_from prev [] = []"
| "log_change_from prev (x # xs) =
     flog (fdiv (Fin x) (Fin prev)) # log_change_from x xs"

definition log_change :: "real list \<Rightarrow> pyfloat list" where
  "log_change xs = (case xs of [] \<Rightarrow> [] | x # rest \<Rightarrow> NaN # log_change_from x rest)"

definition add_columns :: "bar \<Rightarrow> pyfloat \<times> pyfloat \<Rightarrow> row" where
  "add_columns b rl =
     \<lparr>bar_timestamp = bar_timestamp b, bar_open = bar_open b, bar_high = bar_high b,
      bar_low = bar_low b, bar_close = bar_close b, bar_volume = bar_volume b,
      returns = fst rl, log_returns = snd rl\<rparr>"

text \<open>
  \<^verbatim>\<open>HistoricalDataManager.preprocess_data\<close>. The sort is by timestamp; which of two rows
  of one timestamp comes first after pandas' sort is not fixed by pandas, here the order
  of the input is kept.
\<close>

definition preprocess_data :: "table \<Rightarrow> error + row list" where
  "preprocess_data data =
     (if \<not> (\<forall>col \<in> set required_columns. col \<in> set (columns data)) then Inl ValueError
      else
        let bs = drop_duplicated [] (sort_key bar_timestamp (bars data));
            closes = map bar_close bs
        in Inr (map2 add_columns bs (zip (pct_change closes) (log_change closes))))"

section \<open>Strategies\<close>

text \<open>
  A strategy object: its name, its state, and the abstract method
  \<^verbatim>\<open>get_recommendation(data)\<close>, which reads the window it is given, may change the
  object's state and either raises or returns a recommendation, of which the engine
  reads the entry \<^verbatim>\<open>'action'\<close> only.
\<close>

record 'st strategy =
  name :: string
  state :: 'st
  get_recommendation :: "'st \<Rightarrow> row list \<Rightarrow> (error + string) \<times> 'st"

section \<open>The backtest engine\<close>

record trade =
  trade_timestamp :: int
  trade_type :: string
  trade_price :: real
  trade_size :: real
  trade_capital :: real

text \<open>The local variables of the loop of \<^verbatim>\<open>run_backtest\<close>.\<close>

record loop_state =
  capital :: real
  position :: real
  trades :: "trade list"
  equity_curve :: "real list"

text \<open>
  Lines 70 to 95: the trade, if the recommendation asks for one. The capital, the
  position and the prices are finite numbers here. At a close price of 0 the division
  of line 76 yields an infinity or NaN in numpy; that case is outside this model,
  where the quotient is the one of the reals.
\<close>

definition execute_trade :: "real \<Rightarrow> string \<Rightarrow> int \<Rightarrow> real \<Rightarrow> loop_state \<Rightarrow> loop_state" where
  "execute_trade commission action ts price s =
     (if action \<noteq> ''hold'' then
        (if action = ''buy'' \<and> position s \<le> 0 then
           (let position_size = capital s / price;
                capital' = capital s - position_size * price * (1 + commission)
            in s\<lparr>capital := capital', position := position_size,
                 trades := trades s @
                   [\<lparr>trade_timestamp = ts, trade_type = ''buy'', trade_price = price,
                     trade_size = position_size, trade_capital = capital'\<rparr>]\<rparr>)
         else if action = ''sell'' \<and> position s > 0 then
           (let capital' = capital s + position s * price * (1 - commission)
            in s\<lparr>capital := capital', position := 0,
                 trades := trades s @
                   [\<lparr>trade_timestamp = ts, trade_type = ''sell'', trade_price = price,
                     trade_size = position s, trade_capital = capital'\<rparr>]\<rparr>)
         else s)
      else s)"

text \<open>Lines 97 to 99: the value of the account at a close price.\<close>

definition current_equity :: "loop_state \<Rightarrow> real \<Rightarrow> real" where
  "current_equity s close = capital s + (if position s > 0 then position s * close else 0)"

text \<open>
  One turn of the loop, for bar \<open>i\<close>: the strategy sees \<^verbatim>\<open>data.iloc[:i+1]\<close>; an
  exception of the strategy ends the run.
\<close>

definition bar_step ::
  "real \<Rightarrow> row list \<Rightarrow> nat \<Rightarrow> 'st strategy \<times> loop_state \<Rightarrow> error + 'st strategy \<times> loop_state" where
  "bar_step commission data i ss =
     (let strat = fst ss; s = snd ss;
          current_data = take (i + 1) data
      in case get_recommendation strat (state strat) current_data of
           (Inl e, st') \<Rightarrow> Inl e
         | (Inr action, st') \<Rightarrow>
             (let price = bar_close (data ! i);
                  s1 = execute_trade commission action (bar_timestamp (data ! i)) price s
              in Inr (strat\<lparr>state := st'\<rparr>,
                      s1\<lparr>equity_curve := equity_curve s1 @ [current_equity s1 (bar_close (data ! i))]\<rparr>)))"

fun run_bars ::
  "real \<Rightarrow> row list \<Rightarrow> nat list \<Rightarrow> 'st strategy \<times> loop_state \<Rightarrow> error + 'st strategy \<times> loop_state" where
  "run_bars commission data [] ss = Inr ss"
| "run_bars commission data (i # is) ss =
     (case bar_step commission data i ss of
        Inl e \<Rightarrow> Inl e
      | Inr ss' \<Rightarrow> run_bars commission data is ss')"

definition initial_loop_state :: "real \<Rightarrow> loop_state" where
  "initial_loop_state initial_capital =
     \<lparr>capital = initial_capital, position = 0, trades = [], equity_curve = []\<rparr>"

text \<open>\<^verbatim>\<open>for i in range(len(data))\<close>, from the initial values of lines 58 to 61.\<close>

definition run_loop ::
  "real \<Rightarrow> real \<Rightarrow> 'st strategy \<Rightarrow> row list \<Rightarrow> error + 'st strategy \<times> loop_state" where
  "run_loop initial_capital commission strat data =
     run_bars commission data [0..<length data] (strat, initial_loop_state initial_capital)"

text \<open>
  The loop after its first \<open>k\<close> turns: the strategy object and the local variables, or
  the exception raised in one of these turns.
\<close>

definition loop_prefix ::
  "real \<Rightarrow> real \<Rightarrow> 'st strategy \<Rightarrow> row list \<Rightarrow> nat \<Rightarrow> error + 'st strategy \<times> loop_state" where
  "loop_prefix start fee strat data k =
     run_bars fee data [0..<k] (strat, initial_loop_state start)"

text \<open>The value of \<^verbatim>\<open>recommendation['action']\<close> in turn \<open>i\<close> (line 68).\<close>

definition recommendation_at ::
  "real \<Rightarrow> real \<Rightarrow> 'st strategy \<Rightarrow> row list \<Rightarrow> nat \<Rightarrow> error + string" where
  "recommendation_at start fee strat data i =
     (case loop_prefix start fee strat data i of
        Inl e \<Rightarrow> Inl e
      | Inr (strat', s) \<Rightarrow> fst (get_recommendation strat' (state strat') (take (i + 1) data)))"

section \<open>Performance metrics\<close>

record metrics =
  sharpe_ratio :: pyfloat
  sortino_ratio :: pyfloat
  max_drawdown :: pyfloat
  win_rate :: pyfloat
  profit_factor :: pyfloat
  avg_trade :: pyfloat

definition zero_metrics :: metrics where
  "zero_metrics =
     \<lparr>sharpe_ratio = Fin 0, sortino_ratio = Fin 0, max_drawdown = Fin 0,
      win_rate = Fin 0, profit_factor = Fin 0, avg_trade = Fin 0\<rparr>"

text \<open>\<^verbatim>\<open>Series.dropna()\<close>.\<close>

definition dropna :: "pyfloat list \<Rightarrow> pyfloat list" where
  "dropna xs = filter (\<lambda>x. \<not> is_nan x) xs"

definition series_sum :: "pyfloat list \<Rightarrow> pyfloat" where
  "series_sum xs = foldl fadd (Fin 0) xs"

text \<open>\<^verbatim>\<open>Series.mean()\<close> of a series without NaN: NaN when the series is empty.\<close>

definition series_mean :: "pyfloat list \<Rightarrow> pyfloat" where
  "series_mean xs =
     (if xs = [] then NaN else fdiv (series_sum xs) (Fin (real (length xs))))"

text \<open>\<^verbatim>\<open>Series.std()\<close>, the sample deviation (\<open>ddof = 1\<close>): NaN below two values.\<close>

definition series_std :: "pyfloat list \<Rightarrow> pyfloat" where
  "series_std xs =
     (if length xs < 2 then NaN
      else
        let m = series_mean xs;
            sq = map (\<lambda>x. fmul (fsub x m) (fsub x m)) xs
        in fsqrt (fdiv (series_sum sq) (Fin (real (length xs - 1)))))"

text \<open>\<^verbatim>\<open>Series.cumsum()\<close>.\<close>

fun cumsum_from :: "pyfloat \<Rightarrow> pyfloat list \<Rightarrow> pyfloat list" where
  "cumsum_from acc [] = []"
| "cumsum_from acc (x # xs) = fadd acc x # cumsum_from (fadd acc x) xs"

definition cumsum :: "pyfloat list \<Rightarrow> pyfloat list" where
  "cumsum xs = cumsum_from (Fin 0) xs"

text \<open>
  \<^verbatim>\<open>expanding().max()\<close>: the greatest value so far. The window functions of pandas
  read an infinite value as a missing one, and missing values are passed over; the
  result is NaN as long as there is no value.
\<close>

fun inf_to_nan :: "pyfloat \<Rightarrow> pyfloat" where
  "inf_to_nan (Fin a) = Fin a"
| "inf_to_nan x = NaN"

fun nan_max :: "pyfloat \<Rightarrow> pyfloat \<Rightarrow> pyfloat" where
  "nan_max NaN y = y"
| "nan_max x NaN = x"
| "nan_max x y = (if flt x y then y else x)"

fun expanding_max_from :: "pyfloat \<Rightarrow> pyfloat list \<Rightarrow> pyfloat list" where
  "expanding_max_from acc [] = []"
| "expanding_max_from acc (x # xs) = nan_max acc x # expanding_max_from (nan_max acc x) xs"

definition expanding_max :: "pyfloat list \<Rightarrow> pyfloat list" where
  "expanding_max xs = expanding_max_from NaN (map inf_to_nan xs)"

text \<open>\<^verbatim>\<open>Series.min()\<close>: the least value, NaN values passed over; NaN when none is left.\<close>

fun nan_min :: "pyfloat \<Rightarrow> pyfloat \<Rightarrow> pyfloat" where
  "nan_min NaN y = y"
| "nan_min x NaN = x"
| "nan_min x y = (if flt y x then y else x)"

definition series_min :: "pyfloat list \<Rightarrow> pyfloat" where
  "series_min xs = foldl nan_min NaN xs"

text \<open>Lines 141 and 142.\<close>

definition drawdown :: "pyfloat list \<Rightarrow> pyfloat list" where
  "drawdown rets =
     (let cummax = expanding_max (cumsum rets)
      in map2 (\<lambda>c m. fdiv (fsub c m) m) (cumsum rets) cummax)"

text \<open>\<^verbatim>\<open>trades.index(t)\<close>, for a \<open>t\<close> of the list: the first place of an equal trade.\<close>

fun index_of :: "'a list \<Rightarrow> 'a \<Rightarrow> nat" where
  "index_of [] y = 0"
| "index_of (x # xs) y = (if x = y then 0 else Suc (index_of xs y))"

text \<open>
  \<^verbatim>\<open>trades[trades.index(t)-1]\<close>: Python reads index \<open>-1\<close> as the last element.
\<close>

definition prev_trade :: "trade list \<Rightarrow> trade \<Rightarrow> trade" where
  "prev_trade ts t =
     (let i = index_of ts t in if i = 0 then last ts else ts ! (i - 1))"

definition sell_trades :: "trade list \<Rightarrow> trade list" where
  "sell_trades ts = filter (\<lambda>t. trade_type t = ''sell'') ts"

definition winning_trades :: "trade list \<Rightarrow> trade list" where
  "winning_trades ts =
     filter (\<lambda>t. trade_type t = ''sell'' \<and> trade_capital t > trade_capital (prev_trade ts t)) ts"

definition losing_trades :: "trade list \<Rightarrow> trade list" where
  "losing_trades ts =
     filter (\<lambda>t. trade_type t = ''sell'' \<and> trade_capital t \<le> trade_capital (prev_trade ts t)) ts"

definition trade_delta :: "trade list \<Rightarrow> trade \<Rightarrow> real" where
  "trade_delta ts t = trade_capital t - trade_capital (prev_trade ts t)"

text \<open>
  \<^verbatim>\<open>BacktestEngine._calculate_metrics\<close>. The quotient of the two lengths in line 149 is
  a division of Python integers, which raises when no trade is a sell.
\<close>

definition calculate_metrics :: "pyfloat list \<Rightarrow> trade list \<Rightarrow> error + metrics" where
  "calculate_metrics rets ts =
     (if length ts < 2 then Inr zero_metrics
      else
        let sharpe = fdiv (fmul (Fin (sqrt 252)) (series_mean rets)) (series_std rets);
            downside_returns = filter (\<lambda>r. flt r (Fin 0)) rets;
            sortino =
              (if length downside_returns > 0
               then fdiv (fmul (Fin (sqrt 252)) (series_mean rets)) (series_std downside_returns)
               else Fin 0);
            maxdd = series_min (drawdown rets);
            n_sells = length (sell_trades ts)
        in if n_sells = 0 then Inl ZeroDivisionError
           else
             let total_profit = sum_list (map (trade_delta ts) (winning_trades ts));
                 total_loss = \<bar>sum_list (map (trade_delta ts) (losing_trades ts))\<bar>
             in Inr \<lparr>sharpe_ratio = sharpe, sortino_ratio = sortino, max_drawdown = maxdd,
                     win_rate = Fin (real (length (winning_trades ts)) / real n_sells),
                     profit_factor =
                       (if total_loss > 0 then Fin (total_profit / total_loss) else PInf),
                     avg_trade = Fin ((total_profit - total_loss) / real n_sells)\<rparr>)"

text \<open>
  What the loop keeps true of its trades: their timestamps differ; the capital is the
  one the last trade recorded; a positive position was opened by a trade; and every
  sale follows a trade, has a positive size and records the capital of the trade before
  it plus its proceeds \<open>size * price * (1 - commission)\<close>.
\<close>

definition trades_ok :: "real \<Rightarrow> loop_state \<Rightarrow> bool" where
  "trades_ok c s \<longleftrightarrow>
     distinct (map trade_timestamp (trades s))
   \<and> (trades s \<noteq> [] \<longrightarrow> trade_capital (last (trades s)) = capital s)
   \<and> (0 < position s \<longrightarrow> trades s \<noteq> [])
   \<and> (\<forall>j < length (trades s). trade_type (trades s ! j) = ''sell'' \<longrightarrow>
          0 < j \<and> 0 < trade_size (trades s ! j)
        \<and> trade_capital (trades s ! j)
            = trade_capital (trades s ! (j - 1))
              + trade_size (trades s ! j) * trade_price (trades s ! j) * (1 - c))"

section \<open>A backtest run\<close>

record query =
  symbol :: string
  start_date :: string
  end_date :: string
  timeframe :: string

record backtest_result =
  res_strategy :: string
  res_symbol :: string
  res_timeframe :: string
  res_start_date :: string
  res_end_date :: string
  res_initial_capital :: real
  res_final_capital :: real
  res_total_return :: pyfloat
  res_trades :: "trade list"
  res_equity_curve :: "real list"
  res_returns :: "pyfloat list"
  res_metrics :: metrics

text \<open>
  Line 114. While no trade has been made the equity is a Python float, and Python's
  division by zero raises; after a trade it is a numpy float, whose division does not.
\<close>

definition total_return :: "real \<Rightarrow> real \<Rightarrow> trade list \<Rightarrow> error + pyfloat" where
  "total_return final start ts =
     (if start = 0 \<and> ts = [] then Inl ZeroDivisionError
      else Inr (fsub (fdiv (Fin final) (Fin start)) (Fin 1)))"

text \<open>Lines 101 to 119: the result, from the values the loop leaves.\<close>

definition build_results :: "string \<Rightarrow> query \<Rightarrow> real \<Rightarrow> loop_state \<Rightarrow> error + backtest_result" where
  "build_results strategy_name q start s =
     (let rets = dropna (pct_change (equity_curve s))
      in if equity_curve s = [] then Inl IndexError
         else
           case total_return (last (equity_curve s)) start (trades s) of
             Inl e \<Rightarrow> Inl e
           | Inr tr \<Rightarrow>
               (case calculate_metrics rets (trades s) of
                  Inl e \<Rightarrow> Inl e
                | Inr m \<Rightarrow>
                    Inr \<lparr>res_strategy = strategy_name, res_symbol = symbol q,
                         res_timeframe = timeframe q, res_start_date = start_date q,
                         res_end_date = end_date q, res_initial_capital = start,
                         res_final_capital = last (equity_curve s), res_total_return = tr,
                         res_trades = trades s, res_equity_curve = equity_curve s,
                         res_returns = rets, res_metrics = m\<rparr>))"

text \<open>
  The engine object. \<open>data_manager\<close> is \<^verbatim>\<open>data_manager.load_data\<close>, the source of the
  data, which is outside the engine. \<open>results\<close> is \<^verbatim>\<open>self.results\<close>, empty at first.
\<close>

record engine =
  data_manager :: "query \<Rightarrow> error + table"
  initial_capital :: real
  commission :: real
  results :: "backtest_result option"

text \<open>
  \<^verbatim>\<open>BacktestEngine.run_backtest\<close>: the result or the exception, the strategy object as
  the run leaves it, and the engine, whose \<open>results\<close> a run that returns has replaced.
\<close>

definition run_backtest ::
  "engine \<Rightarrow> 'st strategy \<Rightarrow> query \<Rightarrow> (error + backtest_result \<times> 'st strategy) \<times> engine" where
  "run_backtest eng strat q =
     (case data_manager eng q of
        Inl e \<Rightarrow> (Inl e, eng)
      | Inr raw \<Rightarrow>
          (case preprocess_data raw of
             Inl e \<Rightarrow> (Inl e, eng)
           | Inr data \<Rightarrow>
               (case run_loop (initial_capital eng) (commission eng) strat data of
                  Inl e \<Rightarrow> (Inl e, eng)
                | Inr (strat', s) \<Rightarrow>
                    (case build_results (name strat') q (initial_capital eng) s of
                       Inl e \<Rightarrow> (Inl e, eng)
                     | Inr r \<Rightarrow> (Inr (r, strat'), eng\<lparr>results := Some r\<rparr>)))))"

section \<open>The strategy optimizer\<close>

text \<open>A parameter dictionary, in the order of its keys.\<close>

type_synonym 'v params = "(string \<times> 'v) list"

text \<open>What \<^verbatim>\<open>_evaluate_params\<close> returns: \<^verbatim>\<open>'params'\<close>, \<^verbatim>\<open>'score'\<close>, \<^verbatim>\<open>'results'\<close>.\<close>

record 'v evaluation =
  ev_params :: "'v params"
  ev_score :: pyfloat
  ev_results :: backtest_result

record 'v optimizer =
  backtest_engine :: engine
  objective_function :: string
  best_params :: "'v params option"
  best_score :: pyfloat
  opt_results :: "'v evaluation list"

text \<open>\<^verbatim>\<open>StrategyOptimizer.__init__\<close>.\<close>

definition new_optimizer :: "engine \<Rightarrow> string \<Rightarrow> 'v optimizer" where
  "new_optimizer eng objective =
     \<lparr>backtest_engine = eng, objective_function = objective, best_params = None,
      best_score = NInf, opt_results = []\<rparr>"

text \<open>\<^verbatim>\<open>results['metrics'][self.objective_function]\<close>.\<close>

definition metric_value :: "metrics \<Rightarrow> string \<Rightarrow> error + pyfloat" where
  "metric_value m key =
     (if key = ''sharpe_ratio'' then Inr (sharpe_ratio m)
      else if key = ''sortino_ratio'' then Inr (sortino_ratio m)
      else if key = ''max_drawdown'' then Inr (max_drawdown m)
      else if key = ''win_rate'' then Inr (win_rate m)
      else if key = ''profit_factor'' then Inr (profit_factor m)
      else if key = ''avg_trade'' then Inr (avg_trade m)
      else Inl KeyError)"

text \<open>
  \<^verbatim>\<open>StrategyOptimizer._evaluate_params\<close>. \<open>strategy_class\<close> is the constructor call
  \<^verbatim>\<open>strategy_class(**params)\<close>. The call runs in a worker process on a copy of the
  optimizer, so what the run stores in the engine is lost.
\<close>

definition evaluate_params ::
  "'v optimizer \<Rightarrow> ('v params \<Rightarrow> error + 'st strategy) \<Rightarrow> 'v params \<Rightarrow> query
     \<Rightarrow> error + 'v evaluation" where
  "evaluate_params opt strategy_class ps q =
     (case strategy_class ps of
        Inl e \<Rightarrow> Inl e
      | Inr strat \<Rightarrow>
          (case fst (run_backtest (backtest_engine opt) strat q) of
             Inl e \<Rightarrow> Inl e
           | Inr (r, strat') \<Rightarrow>
               (case metric_value (res_metrics r) (objective_function opt) of
                  Inl e \<Rightarrow> Inl e
                | Inr score \<Rightarrow> Inr \<lparr>ev_params = ps, ev_score = score, ev_results = r\<rparr>)))"

text \<open>\<^verbatim>\<open>itertools.product(*param_values)\<close>: the last list varies fastest.\<close>

fun itertools_product :: "'a list list \<Rightarrow> 'a list list" where
  "itertools_product [] = [[]]"
| "itertools_product (xs # xss) =
     concat (map (\<lambda>x. map ((#) x) (itertools_product xss)) xs)"

text \<open>Lines 79 to 84: one result is stored, and kept as the best if its score is greater.\<close>

definition record_result :: "'v optimizer \<Rightarrow> 'v evaluation \<Rightarrow> 'v optimizer" where
  "record_result opt r =
     (let opt1 = opt\<lparr>opt_results := opt_results opt @ [r]\<rparr>
      in if fgt (ev_score r) (best_score opt1)
         then opt1\<lparr>best_score := ev_score r, best_params := Some (ev_params r)\<rparr>
         else opt1)"

text \<open>
  Lines 77 to 84: the futures are read in the order of submission; the first one that
  holds an exception raises it, and what was stored before stays stored.
\<close>

fun collect_results ::
  "'v optimizer \<Rightarrow> (error + 'v evaluation) list \<Rightarrow> error option \<times> 'v optimizer" where
  "collect_results opt [] = (None, opt)"
| "collect_results opt (Inl e # futures) = (Some e, opt)"
| "collect_results opt (Inr r # futures) = collect_results (record_result opt r) futures"

record 'v grid_result =
  gr_best_params :: "'v params option"
  gr_best_score :: pyfloat
  all_results :: "'v evaluation list"

text \<open>Lines 55 to 74: one future per point of the grid, in the order of the product.\<close>

definition submit_all ::
  "'v optimizer \<Rightarrow> ('v params \<Rightarrow> error + 'st strategy) \<Rightarrow> (string \<times> 'v list) list \<Rightarrow> query
     \<Rightarrow> (error + 'v evaluation) list" where
  "submit_all opt strategy_class param_grid q =
     (let param_names = map fst param_grid;
          param_values = map snd param_grid;
          param_combinations = itertools_product param_values
      in map (\<lambda>ps. evaluate_params opt strategy_class (zip param_names ps) q)
           param_combinations)"

text \<open>
  \<^verbatim>\<open>StrategyOptimizer.grid_search\<close>. \<open>param_grid\<close> is a dictionary: its keys differ.
  \<^verbatim>\<open>'all_results'\<close> is the list \<^verbatim>\<open>self.results\<close> itself.
\<close>

definition grid_search ::
  "'v optimizer \<Rightarrow> ('v params \<Rightarrow> error + 'st strategy) \<Rightarrow> (string \<times> 'v list) list \<Rightarrow> query
     \<Rightarrow> (error + 'v grid_result) \<times> 'v optimizer" where
  "grid_search opt strategy_class param_grid q =
     (case collect_results opt (submit_all opt strategy_class param_grid q) of
        (Some e, opt') \<Rightarrow> (Inl e, opt')
      | (None, opt') \<Rightarrow>
          (Inr \<lparr>gr_best_params = best_params opt', gr_best_score = best_score opt',
                all_results = opt_results opt'\<rparr>, opt'))"

text \<open>
  The best so far is the first greatest score: when no stored score is above \<open>-inf\<close>
  the optimizer still holds its initial \<open>-inf\<close> and no parameters; otherwise it holds the
  score and the parameters of the first stored result that no other one exceeds.
\<close>

definition first_best :: "'v optimizer \<Rightarrow> bool" where
  "first_best opt \<longleftrightarrow>
     (if \<forall>r \<in> set (opt_results opt). ev_score r = NInf
      then best_score opt = NInf \<and> best_params opt = None
      else \<exists>i < length (opt_results opt).
             ev_score (opt_results opt ! i) = best_score opt
           \<and> (\<forall>j < i. flt (ev_score (opt_results opt ! j)) (best_score opt))
           \<and> (\<forall>r \<in> set (opt_results opt). fle (ev_score r) (best_score opt))
           \<and> best_params opt = Some (ev_params (opt_results opt ! i)))"

section \<open>The Monte Carlo simulator\<close>

text \<open>
  \<^verbatim>\<open>np.random.choice(original_returns, size=len(original_returns), replace=True)\<close>:
  \<open>picks\<close> are the places drawn, as many as there are returns, each below their number.
\<close>

definition generate_random_returns :: "pyfloat list \<Rightarrow> nat list \<Rightarrow> pyfloat list" where
  "generate_random_returns original_returns picks = map (\<lambda>i. original_returns ! i) picks"

text \<open>\<^verbatim>\<open>MonteCarloSimulator._create_simulated_prices\<close>.\<close>

definition create_simulated_prices :: "pyfloat \<Rightarrow> pyfloat list \<Rightarrow> pyfloat list" where
  "create_simulated_prices initial_price random_returns =
     foldl (\<lambda>prices ret. prices @ [fmul (last prices) (fadd (Fin 1) ret)])
       [initial_price] random_returns"

text \<open>
  Lines 186 to 211, one trial. Setting a column of a frame to an array of another length
  raises \<open>ValueError\<close>. \<^verbatim>\<open>run_backtest\<close> has no parameter \<^verbatim>\<open>data\<close>, so the call of line
  201 raises \<open>TypeError\<close>; the perturbed columns of lines 195 to 198 are read by nothing
  before that.
\<close>

definition simulation_trial :: "row list \<Rightarrow> nat list \<Rightarrow> error + real list \<times> metrics" where
  "simulation_trial data picks =
     (let random_returns = generate_random_returns (map returns data) picks
      in case data of
           [] \<Rightarrow> Inl IndexError
         | first # rest \<Rightarrow>
             (let simulated_prices =
                    create_simulated_prices (Fin (bar_close first)) random_returns
              in if length simulated_prices \<noteq> length data then Inl ValueError
                 else Inl TypeError))"

fun run_trials :: "row list \<Rightarrow> nat list list \<Rightarrow> error + (real list \<times> metrics) list" where
  "run_trials data [] = Inr []"
| "run_trials data (picks # rest) =
     (case simulation_trial data picks of
        Inl e \<Rightarrow> Inl e
      | Inr t \<Rightarrow> (case run_trials data rest of Inl e \<Rightarrow> Inl e | Inr ts \<Rightarrow> Inr (t # ts)))"

text \<open>
  \<^verbatim>\<open>MonteCarloSimulator.run_simulation\<close> up to line 215: \<open>draws\<close> holds the places drawn
  in each of the \<^verbatim>\<open>n_simulations\<close> trials. With no trial at all, the last column of an
  empty array is read, which raises.
\<close>

definition run_simulation :: "engine \<Rightarrow> query \<Rightarrow> nat list list \<Rightarrow> error + (real list \<times> metrics) list" where
  "run_simulation eng q draws =
     (case data_manager eng q of
        Inl e \<Rightarrow> Inl e
      | Inr raw \<Rightarrow>
          (case preprocess_data raw of
             Inl e \<Rightarrow> Inl e
           | Inr data \<Rightarrow>
               (case run_trials data draws of
                  Inl e \<Rightarrow> Inl e
                | Inr ts \<Rightarrow> if ts = [] then Inl IndexError else Inr ts)))"

section \<open>Example inputs\<close>

text \<open>A strategy that answers bar \<open>i\<close> with the \<open>i\<close>-th action of a script, then holds.\<close>

definition scripted :: "string list \<Rightarrow> unit strategy" where
  "scripted acts =
     \<lparr>name = ''scripted'', state = (),
      get_recommendation = (\<lambda>st data.
        (Inr (if 0 < length data \<and> length data \<le> length acts
              then acts ! (length data - 1) else ''hold''), st))\<rparr>"

definition ohlcv :: "int \<Rightarrow> real \<Rightarrow> bar" where
  "ohlcv ts p =
     \<lparr>bar_timestamp = ts, bar_open = p, bar_high = p, bar_low = p, bar_close = p,
      bar_volume = 1\<rparr>"

text \<open>A complete frame of the given close prices, at the timestamps 0, 1, 2 and so on.\<close>

definition price_table :: "real list \<Rightarrow> table" where
  "price_table ps =
     \<lparr>columns = required_columns, bars = map2 ohlcv (map int [0..<length ps]) ps\<rparr>"

definition example_engine :: "table \<Rightarrow> real \<Rightarrow> real \<Rightarrow> engine" where
  "example_engine t start fee =
     \<lparr>data_manager = (\<lambda>q. Inr t), initial_capital = start, commission = fee,
      results = None\<rparr>"

definition example_query :: query where
  "example_query =
     \<lparr>symbol = ''EURUSD'', start_date = ''2024-01-01'', end_date = ''2024-03-01'',
      timeframe = ''1d''\<rparr>"

text \<open>The preprocessed frame of these prices.\<close>

definition price_rows :: "real list \<Rightarrow> row list" where
  "price_rows ps = (case preprocess_data (price_table ps) of Inl e \<Rightarrow> [] | Inr data \<Rightarrow> data)"

text \<open>
  A strategy class with the parameter \<^verbatim>\<open>trades\<close>: the strategy trades once (a purchase
  at the first bar, a sale at the second) unless the parameter is 0; without the
  parameter the constructor raises.
\<close>

definition example_class :: "nat params \<Rightarrow> error + unit strategy" where
  "example_class ps =
     (case map_of ps ''trades'' of
        None \<Rightarrow> Inl TypeError
      | Some n \<Rightarrow> Inr (scripted (if n = 0 then [] else [''buy'', ''sell''])))"

section \<open>Evaluation of the example runs\<close>

lemmas run_eval =
  run_backtest_def example_engine_def preprocess_data_def price_table_def price_rows_def
  required_columns_def ohlcv_def pct_change_def log_change_def add_columns_def fsub_def
  run_loop_def loop_prefix_def bar_step_def execute_trade_def current_equity_def
  initial_loop_state_def scripted_def build_results_def total_return_def
  calculate_metrics_def example_query_def dropna_def Let_def

lemmas trade_eval =
  sell_trades_def winning_trades_def losing_trades_def trade_delta_def prev_trade_def

lemmas metric_eval =
  series_mean_def series_std_def series_sum_def cumsum_def expanding_max_def series_min_def
  drawdown_def metric_value_def signed_inf_def zero_metrics_def

lemmas grid_eval =
  grid_search_def submit_all_def evaluate_params_def example_class_def new_optimizer_def
  record_result_def fgt_def

section \<open>The strategy sees no bar after the current one\<close>

lemma bar_step_take:
  "i < k \<Longrightarrow> k \<le> length data \<Longrightarrow> bar_step c (take k data) i ss = bar_step c data i ss"
  by (simp add: bar_step_def Let_def min_def split: prod.splits sum.splits)

lemma run_bars_take:
  "\<forall>i \<in> set js. i < k \<Longrightarrow> k \<le> length data \<Longrightarrow>
     run_bars c (take k data) js ss = run_bars c data js ss"
proof (induction js arbitrary: ss)
  case Nil
  show ?case by simp
next
  case (Cons j js)
  then show ?case by (simp add: bar_step_take split: sum.splits)
qed

lemma loop_prefix_take:
  "j \<le> k \<Longrightarrow> k \<le> length data \<Longrightarrow>
     loop_prefix ic c strat (take k data) j = loop_prefix ic c strat data j"
  unfolding loop_prefix_def by (rule run_bars_take) auto

lemma recommendation_at_take:
  "j < k \<Longrightarrow> k \<le> length data \<Longrightarrow>
     recommendation_at ic c strat (take k data) j = recommendation_at ic c strat data j"
  by (simp add: recommendation_at_def loop_prefix_take min_def split: sum.splits prod.splits)

text \<open>
  Claim C1. For every bar \<open>i\<close> of the series, the run on the series cut after bar \<open>i\<close>
  is the run on the whole series stopped after bar \<open>i\<close>: the loop of the cut series ends
  in the state (strategy object, capital, position, trades, equity curve, or the
  exception raised) that the loop of the whole series has after bar \<open>i\<close>, and for every
  bar \<open>k\<close> up to \<open>i\<close> the two runs obtain the same recommendation and are in the same
  state after the bar. Both runs start from the same strategy object.
\<close>

theorem no_lookahead:
  assumes "i < length data"
  shows "run_loop ic c strat (take (i + 1) data) = loop_prefix ic c strat data (i + 1)
    \<and> (\<forall>k \<le> i.
          recommendation_at ic c strat (take (i + 1) data) k = recommendation_at ic c strat data k
        \<and> loop_prefix ic c strat (take (i + 1) data) (k + 1) = loop_prefix ic c strat data (k + 1))"
proof -
  have len: "i + 1 \<le> length data" using assms by simp
  have "run_loop ic c strat (take (i + 1) data) = loop_prefix ic c strat (take (i + 1) data) (i + 1)"
    using len by (simp add: run_loop_def loop_prefix_def min_def)
  then have whole: "run_loop ic c strat (take (i + 1) data) = loop_prefix ic c strat data (i + 1)"
    using len by (simp add: loop_prefix_take)
  have each: "\<forall>k \<le> i.
      recommendation_at ic c strat (take (i + 1) data) k = recommendation_at ic c strat data k
    \<and> loop_prefix ic c strat (take (i + 1) data) (k + 1) = loop_prefix ic c strat data (k + 1)"
    using len by (simp add: recommendation_at_take loop_prefix_take)
  from whole each show ?thesis by simp
qed

theorem no_lookahead_witness:
  "1 < length (price_rows [100, 110, 120])
   \<and> run_loop 10000 (1 / 1000) (scripted [''buy'', ''sell'', ''buy''])
       (take 2 (price_rows [100, 110, 120]))
     = loop_prefix 10000 (1 / 1000) (scripted [''buy'', ''sell'', ''buy''])
         (price_rows [100, 110, 120]) 2
   \<and> recommendation_at 10000 (1 / 1000) (scripted [''buy'', ''sell'', ''buy''])
       (take 2 (price_rows [100, 110, 120])) 1 = Inr ''sell''"
proof -
  have len: "1 < length (price_rows [100, 110, 120])" by (simp add: run_eval)
  have rec: "recommendation_at 10000 (1 / 1000) (scripted [''buy'', ''sell'', ''buy''])
      (price_rows [100, 110, 120]) 1 = Inr ''sell''"
    by (simp add: recommendation_at_def run_eval)
  from no_lookahead [OF len, of 10000 "1 / 1000" "scripted [''buy'', ''sell'', ''buy'']"] len rec
  show ?thesis by (simp add: numeral_2_eq_2)
qed

section \<open>The trading step\<close>

text \<open>
  Claim C2. One turn of the loop, at a bar whose close price \<open>p\<close> is not zero, with the
  recommendation the strategy returns. The engine is flat when its position is not
  positive and long when it is positive. From flat, \<open>buy\<close> sets the position to
  \<open>capital / p\<close>, takes \<open>position * p * (1 + commission)\<close> from the capital and appends
  one trade; from long, \<open>sell\<close> adds \<open>position * p * (1 - commission)\<close> to the capital,
  sets the position to 0 and appends one trade; \<open>hold\<close>, \<open>buy\<close> while long and \<open>sell\<close>
  while flat leave capital, position and trades as they are. In every case the equity
  of the new state is appended to the equity curve.
\<close>

theorem trading_step:
  assumes "i < length data"
    and "bar_close (data ! i) \<noteq> 0"
    and "get_recommendation strat (state strat) (take (i + 1) data) = (Inr action, st')"
  shows "\<exists>s'. bar_step c data i (strat, s) = Inr (strat\<lparr>state := st'\<rparr>, s')
    \<and> (action = ''buy'' \<and> position s \<le> 0 \<longrightarrow>
          position s' = capital s / bar_close (data ! i)
        \<and> capital s' = capital s - position s' * bar_close (data ! i) * (1 + c)
        \<and> trades s' = trades s @
            [\<lparr>trade_timestamp = bar_timestamp (data ! i), trade_type = ''buy'',
              trade_price = bar_close (data ! i), trade_size = position s',
              trade_capital = capital s'\<rparr>])
    \<and> (action = ''sell'' \<and> 0 < position s \<longrightarrow>
          capital s' = capital s + position s * bar_close (data ! i) * (1 - c)
        \<and> position s' = 0
        \<and> trades s' = trades s @
            [\<lparr>trade_timestamp = bar_timestamp (data ! i), trade_type = ''sell'',
              trade_price = bar_close (data ! i), trade_size = position s,
              trade_capital = capital s'\<rparr>])
    \<and> (action = ''hold'' \<or> (action = ''buy'' \<and> 0 < position s)
          \<or> (action = ''sell'' \<and> position s \<le> 0) \<longrightarrow>
          capital s' = capital s \<and> position s' = position s \<and> trades s' = trades s)
    \<and> equity_curve s' = equity_curve s @ [current_equity s' (bar_close (data ! i))]"
  using assms(3)
  by (auto simp: bar_step_def execute_trade_def current_equity_def Let_def)

theorem trading_step_witness:
  "position (snd (projr (bar_step (1 / 1000) (price_rows [100, 110]) 0
      (scripted [''buy'', ''sell''], initial_loop_state 10000)))) = 100
   \<and> capital (snd (projr (bar_step (1 / 1000) (price_rows [100, 110]) 0
      (scripted [''buy'', ''sell''], initial_loop_state 10000)))) = - 10"
proof -
  have a: "0 < length (price_rows [100, 110])" by (simp add: run_eval)
  have b: "bar_close (price_rows [100, 110] ! 0) \<noteq> 0" by (simp add: run_eval)
  have c: "get_recommendation (scripted [''buy'', ''sell'']) (state (scripted [''buy'', ''sell'']))
      (take (0 + 1) (price_rows [100, 110])) = (Inr ''buy'', ())"
    by (simp add: run_eval)
  have d: "position (initial_loop_state 10000) \<le> 0" "capital (initial_loop_state 10000) = 10000"
    by (simp_all add: initial_loop_state_def)
  have e: "bar_close (price_rows [100, 110] ! 0) = 100" by (simp add: run_eval)
  from trading_step [OF a b c, of "1 / 1000" "initial_loop_state 10000"] d e
  show ?thesis by auto
qed

section \<open>The equity curve\<close>

lemma run_bars_append:
  "run_bars c data (xs @ ys) ss =
     (case run_bars c data xs ss of Inl e \<Rightarrow> Inl e | Inr ss' \<Rightarrow> run_bars c data ys ss')"
  by (induction xs arbitrary: ss) (auto split: sum.splits)

lemma loop_prefix_Suc:
  "loop_prefix ic c strat data (Suc k) =
     (case loop_prefix ic c strat data k of Inl e \<Rightarrow> Inl e | Inr ss \<Rightarrow> bar_step c data k ss)"
  by (simp add: loop_prefix_def run_bars_append split: sum.splits)

lemma bar_step_equity:
  "bar_step c data i (st0, s0) = Inr (st, s) \<Longrightarrow>
     equity_curve s = equity_curve s0 @ [current_equity s (bar_close (data ! i))]"
  by (auto simp: bar_step_def execute_trade_def current_equity_def Let_def
      split: prod.splits sum.splits if_splits)

lemma equity_curve_prefix:
  "loop_prefix ic c strat data k = Inr (st, s) \<Longrightarrow>
     length (equity_curve s) = k
     \<and> (\<forall>j < k. \<exists>stj sj. loop_prefix ic c strat data (Suc j) = Inr (stj, sj)
          \<and> equity_curve s ! j = current_equity sj (bar_close (data ! j)))"
proof (induction k arbitrary: st s)
  case 0
  then show ?case by (auto simp: loop_prefix_def initial_loop_state_def)
next
  case (Suc k)
  from Suc.prems obtain st0 s0 where
    prev: "loop_prefix ic c strat data k = Inr (st0, s0)"
    and step: "bar_step c data k (st0, s0) = Inr (st, s)"
    by (auto simp: loop_prefix_Suc split: sum.splits)
  from Suc.IH [OF prev] have len: "length (equity_curve s0) = k"
    and old: "\<forall>j < k. \<exists>stj sj. loop_prefix ic c strat data (Suc j) = Inr (stj, sj)
          \<and> equity_curve s0 ! j = current_equity sj (bar_close (data ! j))"
    by simp_all
  from bar_step_equity [OF step]
  have eq: "equity_curve s = equity_curve s0 @ [current_equity s (bar_close (data ! k))]" .
  have "\<exists>stj sj. loop_prefix ic c strat data (Suc j) = Inr (stj, sj)
          \<and> equity_curve s ! j = current_equity sj (bar_close (data ! j))" if "j < Suc k" for j
  proof (cases "j < k")
    case True
    with old len eq show ?thesis by (simp add: nth_append)
  next
    case False
    with that have "j = k" by simp
    with Suc.prems len eq show ?thesis by (simp add: nth_append)
  qed
  with len eq show ?case by simp
qed

text \<open>
  Claim C3, as amended. For every run that returns: the equity curve has one value per
  bar; the value of bar \<open>i\<close> is \<open>capital + position * close[i]\<close> when the position after
  the bar is positive and \<open>capital\<close> when it is zero or negative; the final capital of
  the result is the last value of the curve; and the total return of the result is
  the quotient \<open>final capital / initial capital\<close> less 1, as the floating-point
  division gives it.
\<close>

theorem equity_conservation:
  assumes "data_manager eng q = Inr raw"
    and "preprocess_data raw = Inr data"
    and "fst (run_backtest eng strat q) = Inr (r, strat')"
  shows "length (res_equity_curve r) = length data
    \<and> (\<forall>i < length data. \<exists>st s.
          loop_prefix (initial_capital eng) (commission eng) strat data (i + 1) = Inr (st, s)
        \<and> res_equity_curve r ! i =
            capital s + (if 0 < position s then position s * bar_close (data ! i) else 0))
    \<and> res_final_capital r = last (res_equity_curve r)
    \<and> res_total_return r
        = fsub (fdiv (Fin (res_final_capital r)) (Fin (initial_capital eng))) (Fin 1)"
proof -
  from assms obtain s where
    loop: "run_loop (initial_capital eng) (commission eng) strat data = Inr (strat', s)"
    and res: "build_results (name strat') q (initial_capital eng) s = Inr r"
    by (auto simp: run_backtest_def split: sum.splits prod.splits)
  from res have curve: "res_equity_curve r = equity_curve s"
    and final: "res_final_capital r = last (equity_curve s)"
    and tr: "total_return (last (equity_curve s)) (initial_capital eng) (trades s)
        = Inr (res_total_return r)"
    by (auto simp: build_results_def Let_def split: if_splits sum.splits)
  from loop have "loop_prefix (initial_capital eng) (commission eng) strat data (length data)
      = Inr (strat', s)"
    by (simp add: run_loop_def loop_prefix_def)
  from equity_curve_prefix [OF this] curve
  have a: "length (res_equity_curve r) = length data"
    and b: "\<forall>i < length data. \<exists>st s.
          loop_prefix (initial_capital eng) (commission eng) strat data (i + 1) = Inr (st, s)
        \<and> res_equity_curve r ! i =
            capital s + (if 0 < position s then position s * bar_close (data ! i) else 0)"
    by (simp_all add: current_equity_def)
  from final curve have c: "res_final_capital r = last (res_equity_curve r)" by simp
  from tr final have d: "res_total_return r
        = fsub (fdiv (Fin (res_final_capital r)) (Fin (initial_capital eng))) (Fin 1)"
    by (auto simp: total_return_def split: if_splits)
  from a b c d show ?thesis by blast
qed

theorem equity_conservation_witness:
  "length (res_equity_curve (fst (projr (fst (run_backtest
      (example_engine (price_table [100, 110]) 10000 (1 / 1000)) (scripted [''buy''])
      example_query))))) = 2
   \<and> res_final_capital (fst (projr (fst (run_backtest
      (example_engine (price_table [100, 110]) 10000 (1 / 1000)) (scripted [''buy''])
      example_query)))) = 10990
   \<and> res_total_return (fst (projr (fst (run_backtest
      (example_engine (price_table [100, 110]) 10000 (1 / 1000)) (scripted [''buy''])
      example_query)))) = Fin (99 / 1000)"
proof -
  let ?eng = "example_engine (price_table [100, 110]) 10000 (1 / 1000)"
  let ?out = "fst (run_backtest ?eng (scripted [''buy'']) example_query)"
  have a: "data_manager ?eng example_query = Inr (price_table [100, 110])"
    by (simp add: example_engine_def)
  have b: "preprocess_data (price_table [100, 110]) = Inr (price_rows [100, 110])"
    by (simp add: run_eval)
  have c: "?out = Inr (fst (projr ?out), snd (projr ?out))" by (simp add: run_eval)
  have f: "length (price_rows [100, 110]) = 2" by (simp add: run_eval)
  have g: "last (res_equity_curve (fst (projr ?out))) = 10990" by (simp add: run_eval)
  have h: "initial_capital ?eng = 10000" by (simp add: example_engine_def)
  from equity_conservation [OF a b c] f g h show ?thesis by (simp add: fsub_def)
qed

text \<open>
  Claim C3 as stated fails. With the default commission and the closes 1000, 1, 1, the
  sale leaves a negative capital, the second purchase a negative position, and the
  equity of the third bar is the capital alone, not \<open>capital + position * close\<close>. With
  an initial capital of 0 and one purchase, the total return is NaN and
  \<open>initial_capital * (1 + total_return)\<close> is NaN, not the final equity 0: the final
  equity is not in general the product the claim gives.
\<close>

theorem equity_conservation_counterexample:
  "res_equity_curve (fst (projr (fst (run_backtest
      (example_engine (price_table [1000, 1, 1]) 10000 (1 / 1000))
      (scripted [''buy'', ''sell'', ''buy'']) example_query)))) ! 2 = 1 / 100000
   \<and> loop_prefix 10000 (1 / 1000) (scripted [''buy'', ''sell'', ''buy''])
        (price_rows [1000, 1, 1]) 3
      = Inr (scripted [''buy'', ''sell'', ''buy''],
          \<lparr>capital = 1 / 100000, position = - (1 / 100),
           trades =
             [\<lparr>trade_timestamp = 0, trade_type = ''buy'', trade_price = 1000,
               trade_size = 10, trade_capital = - 10\<rparr>,
              \<lparr>trade_timestamp = 1, trade_type = ''sell'', trade_price = 1,
               trade_size = 10, trade_capital = - (1 / 100)\<rparr>,
              \<lparr>trade_timestamp = 2, trade_type = ''buy'', trade_price = 1,
               trade_size = - (1 / 100), trade_capital = 1 / 100000\<rparr>],
           equity_curve = [9990, - (1 / 100), 1 / 100000]\<rparr>)
   \<and> (1 / 100000 :: real) \<noteq> 1 / 100000 + - (1 / 100) * bar_close (price_rows [1000, 1, 1] ! 2)
   \<and> res_total_return (fst (projr (fst (run_backtest
        (example_engine (price_table [100, 110]) 0 (1 / 1000)) (scripted [''buy''])
        example_query)))) = NaN
   \<and> res_final_capital (fst (projr (fst (run_backtest
        (example_engine (price_table [100, 110]) 0 (1 / 1000)) (scripted [''buy''])
        example_query)))) = 0
   \<and> fmul (Fin 0) (fadd (Fin 1) NaN) \<noteq> Fin 0"
  by (simp add: run_eval trade_eval numeral_3_eq_3 signed_inf_def)

section \<open>Errors of a run\<close>

text \<open>
  Claim C5, as amended. When a required column (open, high, low, close, volume) is
  missing from the loaded frame, \<^verbatim>\<open>run_backtest\<close> raises \<open>ValueError\<close>; when the frame
  is empty after preprocessing, it raises \<open>IndexError\<close>. In both cases the exception is
  the outcome of the call, and the engine is left as it was: no result is stored.
\<close>

theorem run_backtest_errors:
  assumes "data_manager eng q = Inr raw"
  shows "(\<not> set required_columns \<subseteq> set (columns raw) \<longrightarrow>
            run_backtest eng strat q = (Inl ValueError, eng))
    \<and> (preprocess_data raw = Inr [] \<longrightarrow> run_backtest eng strat q = (Inl IndexError, eng))"
  using assms
  by (auto simp: run_backtest_def preprocess_data_def run_loop_def build_results_def
      initial_loop_state_def Let_def split: sum.splits prod.splits)

theorem run_backtest_errors_witness:
  "run_backtest (example_engine \<lparr>columns = [''open'', ''close''], bars = []\<rparr> 10000 (1 / 1000))
      (scripted []) example_query
     = (Inl ValueError, example_engine \<lparr>columns = [''open'', ''close''], bars = []\<rparr> 10000 (1 / 1000))
   \<and> run_backtest (example_engine (price_table []) 10000 (1 / 1000)) (scripted []) example_query
     = (Inl IndexError, example_engine (price_table []) 10000 (1 / 1000))"
proof -
  let ?t = "\<lparr>columns = [''open'', ''close''], bars = []\<rparr>"
  have a: "data_manager (example_engine ?t 10000 (1 / 1000)) example_query = Inr ?t"
    by (simp add: example_engine_def)
  have b: "\<not> set required_columns \<subseteq> set (columns ?t)" by (simp add: required_columns_def)
  have c: "data_manager (example_engine (price_table []) 10000 (1 / 1000)) example_query
      = Inr (price_table [])"
    by (simp add: example_engine_def)
  have d: "preprocess_data (price_table []) = Inr []" by (simp add: run_eval)
  from run_backtest_errors [OF a, of "scripted []"] run_backtest_errors [OF c, of "scripted []"] b d
  show ?thesis by simp
qed

text \<open>
  Claim C5 as stated fails: the exception for an empty frame is not
  \<open>DataUnavailableError\<close>, and the one for a missing column is not \<open>DataFormatError\<close>.
\<close>

theorem run_backtest_errors_counterexample:
  "fst (run_backtest (example_engine (price_table []) 10000 (1 / 1000)) (scripted [])
      example_query) = Inl IndexError
   \<and> fst (run_backtest (example_engine (price_table []) 10000 (1 / 1000)) (scripted [])
      example_query) \<noteq> Inl DataUnavailableError
   \<and> fst (run_backtest
        (example_engine \<lparr>columns = [''open'', ''close''], bars = []\<rparr> 10000 (1 / 1000))
        (scripted []) example_query) = Inl ValueError
   \<and> fst (run_backtest
        (example_engine \<lparr>columns = [''open'', ''close''], bars = []\<rparr> 10000 (1 / 1000))
        (scripted []) example_query) \<noteq> Inl DataFormatError"
  by (simp add: run_eval)

section \<open>Fewer than two trades\<close>

text \<open>
  Claim C4. In the result of every run that records fewer than two trades, each of the
  six metrics (Sharpe ratio, Sortino ratio, maximum drawdown, win rate, profit factor,
  average trade) is 0.
\<close>

theorem degenerate_metrics:
  assumes "fst (run_backtest eng strat q) = Inr (r, strat')"
    and "length (res_trades r) < 2"
  shows "sharpe_ratio (res_metrics r) = Fin 0 \<and> sortino_ratio (res_metrics r) = Fin 0
    \<and> max_drawdown (res_metrics r) = Fin 0 \<and> win_rate (res_metrics r) = Fin 0
    \<and> profit_factor (res_metrics r) = Fin 0 \<and> avg_trade (res_metrics r) = Fin 0"
proof -
  have "res_metrics r = zero_metrics"
    using assms
    by (auto simp: run_backtest_def build_results_def calculate_metrics_def Let_def
        split: sum.splits if_splits prod.splits)
  then show ?thesis by (simp add: zero_metrics_def)
qed

theorem degenerate_metrics_witness:
  "length (res_trades (fst (projr (fst (run_backtest
       (example_engine (price_table [100, 110]) 10000 (1 / 1000)) (scripted [''buy''])
       example_query))))) = 1
   \<and> win_rate (res_metrics (fst (projr (fst (run_backtest
       (example_engine (price_table [100, 110]) 10000 (1 / 1000)) (scripted [''buy''])
       example_query))))) = Fin 0"
proof -
  let ?out = "fst (run_backtest (example_engine (price_table [100, 110]) 10000 (1 / 1000))
      (scripted [''buy'']) example_query)"
  have a: "?out = Inr (fst (projr ?out), snd (projr ?out))" by (simp add: run_eval)
  have b: "length (res_trades (fst (projr ?out))) = 1" by (simp add: run_eval)
  then have c: "length (res_trades (fst (projr ?out))) < 2" by simp
  from degenerate_metrics [OF a c] b show ?thesis by simp
qed

section \<open>Grid search\<close>

lemma length_itertools_product:
  "length (itertools_product xss) = prod_list (map length xss)"
proof (induction xss)
  case Nil
  show ?case by simp
next
  case (Cons xs xss)
  have "length (concat (map (\<lambda>x. map ((#) x) (itertools_product xss)) xs))
      = length xs * length (itertools_product xss)"
    by (induction xs) simp_all
  with Cons show ?case by simp
qed

lemma fle_refl: "\<not> is_nan x \<Longrightarrow> fle x x"
  by (cases x) simp_all

lemma not_flt_fle: "\<not> is_nan x \<Longrightarrow> \<not> is_nan y \<Longrightarrow> \<not> flt x y \<Longrightarrow> fle y x"
  by (cases x; cases y) simp_all

lemma flt_fle: "flt x y \<Longrightarrow> fle x y"
  by (cases x; cases y) simp_all

lemma fle_flt_trans: "fle x y \<Longrightarrow> flt y z \<Longrightarrow> flt x z"
  by (cases x; cases y; cases z) simp_all

lemma fle_trans: "fle x y \<Longrightarrow> fle y z \<Longrightarrow> fle x z"
  by (cases x; cases y; cases z) simp_all

lemma flt_not_nan: "flt x y \<Longrightarrow> \<not> is_nan x \<and> \<not> is_nan y"
  by (cases x; cases y) simp_all

lemma NInf_flt: "\<not> is_nan x \<Longrightarrow> x \<noteq> NInf \<Longrightarrow> flt NInf x"
  by (cases x) simp_all

lemma opt_results_record_result [simp]:
  "opt_results (record_result opt r) = opt_results opt @ [r]"
  by (simp add: record_result_def Let_def)

lemma opt_results_foldl:
  "opt_results (foldl record_result opt rs) = opt_results opt @ rs"
  by (induction rs arbitrary: opt) simp_all

lemma first_best_record_result:
  assumes fb: "first_best opt"
    and old: "\<forall>x \<in> set (opt_results opt). \<not> is_nan (ev_score x)"
    and new: "\<not> is_nan (ev_score r)"
  shows "first_best (record_result opt r)"
proof (cases "\<forall>x \<in> set (opt_results opt). ev_score x = NInf")
  case True
  with fb have best: "best_score opt = NInf" "best_params opt = None"
    by (simp_all add: first_best_def)
  show ?thesis
  proof (cases "ev_score r = NInf")
    case eq: True
    with True best show ?thesis
      by (simp add: first_best_def record_result_def Let_def fgt_def)
  next
    case False
    with new have gt: "flt NInf (ev_score r)" by (simp add: NInf_flt)
    have "\<forall>j < length (opt_results opt). flt (ev_score (opt_results opt ! j)) (ev_score r)"
      using True gt by simp
    moreover have "\<forall>x \<in> set (opt_results opt). fle (ev_score x) (ev_score r)"
      using True gt by (simp add: flt_fle)
    moreover have "fle (ev_score r) (ev_score r)" using new by (rule fle_refl)
    ultimately show ?thesis
      using False best gt
      by (auto simp: first_best_def record_result_def Let_def fgt_def nth_append
          intro!: exI [of _ "length (opt_results opt)"])
  qed
next
  case False
  with fb obtain i where i: "i < length (opt_results opt)"
    and at: "ev_score (opt_results opt ! i) = best_score opt"
    and before: "\<forall>j < i. flt (ev_score (opt_results opt ! j)) (best_score opt)"
    and all: "\<forall>x \<in> set (opt_results opt). fle (ev_score x) (best_score opt)"
    and ps: "best_params opt = Some (ev_params (opt_results opt ! i))"
    by (auto simp: first_best_def)
  from i at old have bn: "\<not> is_nan (best_score opt)" by (metis nth_mem)
  from False have notall: "\<not> (\<forall>x \<in> set (opt_results opt @ [r]). ev_score x = NInf)" by auto
  show ?thesis
  proof (cases "flt (best_score opt) (ev_score r)")
    case True
    have "\<forall>j < length (opt_results opt). flt (ev_score (opt_results opt ! j)) (ev_score r)"
      using all True by (auto intro: fle_flt_trans)
    moreover have "\<forall>x \<in> set (opt_results opt). fle (ev_score x) (ev_score r)"
      using all True by (auto intro: flt_fle fle_flt_trans)
    moreover have "fle (ev_score r) (ev_score r)" using new by (rule fle_refl)
    ultimately show ?thesis
      using True notall
      by (auto simp: first_best_def record_result_def Let_def fgt_def nth_append
          intro!: exI [of _ "length (opt_results opt)"])
  next
    case nogt: False
    with bn new have "fle (ev_score r) (best_score opt)" by (simp add: not_flt_fle)
    with i at before all ps nogt notall show ?thesis
      by (auto simp: first_best_def record_result_def Let_def fgt_def nth_append
          intro!: exI [of _ i])
  qed
qed

lemma first_best_foldl:
  "first_best opt \<Longrightarrow> \<forall>x \<in> set (opt_results opt @ rs). \<not> is_nan (ev_score x) \<Longrightarrow>
     first_best (foldl record_result opt rs)"
proof (induction rs arbitrary: opt)
  case Nil
  then show ?case by simp
next
  case (Cons r rs)
  from Cons.prems have "first_best (record_result opt r)"
    by (intro first_best_record_result) auto
  moreover from Cons.prems
  have "\<forall>x \<in> set (opt_results (record_result opt r) @ rs). \<not> is_nan (ev_score x)" by auto
  ultimately show ?case using Cons.IH by simp
qed

lemma collect_results_None:
  "collect_results opt futures = (None, opt') \<Longrightarrow>
     \<exists>rs. futures = map Inr rs \<and> opt' = foldl record_result opt rs"
proof (induction opt futures rule: collect_results.induct)
  case (1 opt)
  then show ?case by simp
next
  case (2 opt e futures)
  then show ?case by simp
next
  case (3 opt r futures)
  then obtain rs where "futures = map Inr rs" "opt' = foldl record_result (record_result opt r) rs"
    by auto
  then show ?case by (intro exI [of _ "r # rs"]) simp
qed

lemma grid_search_returns:
  assumes "grid_search opt sc grid q = (Inr res, opt')"
  shows "\<exists>rs. submit_all opt sc grid q = map Inr rs \<and> opt' = foldl record_result opt rs
    \<and> all_results res = opt_results opt @ rs
    \<and> gr_best_score res = best_score opt' \<and> gr_best_params res = best_params opt'"
proof -
  from assms have c: "collect_results opt (submit_all opt sc grid q) = (None, opt')"
    and r: "res = \<lparr>gr_best_params = best_params opt', gr_best_score = best_score opt',
                all_results = opt_results opt'\<rparr>"
    by (auto simp: grid_search_def split: prod.splits option.splits)
  from collect_results_None [OF c] obtain rs where
    "submit_all opt sc grid q = map Inr rs" "opt' = foldl record_result opt rs" by blast
  with r show ?thesis by (auto simp: opt_results_foldl)
qed

lemma evaluate_params_params:
  "evaluate_params opt sc ps q = Inr r \<Longrightarrow> ev_params r = ps"
  by (auto simp: evaluate_params_def split: sum.splits prod.splits)

lemma submit_all_params:
  assumes "submit_all opt sc grid q = map Inr rs"
  shows "map ev_params rs = map (zip (map fst grid)) (itertools_product (map snd grid))"
proof -
  let ?combos = "itertools_product (map snd grid)"
  from assms have m: "map (\<lambda>ps. evaluate_params opt sc (zip (map fst grid) ps) q) ?combos = map Inr rs"
    by (simp add: submit_all_def Let_def)
  then have len: "length rs = length ?combos" by (metis length_map)
  show ?thesis
  proof (rule nth_equalityI)
    show "length (map ev_params rs) = length (map (zip (map fst grid)) ?combos)"
      using len by simp
  next
    fix i assume "i < length (map ev_params rs)"
    then have i: "i < length rs" by simp
    with len m have "evaluate_params opt sc (zip (map fst grid) (?combos ! i)) q = Inr (rs ! i)"
      by (metis nth_map length_map)
    from evaluate_params_params [OF this] i len
    show "map ev_params rs ! i = map (zip (map fst grid)) ?combos ! i" by simp
  qed
qed


lemma best_score_record_result:
  "best_score (record_result opt r) = best_score opt
   \<or> flt (best_score opt) (best_score (record_result opt r))"
  by (simp add: record_result_def Let_def fgt_def)

lemma flt_trans: "flt x y \<Longrightarrow> flt y z \<Longrightarrow> flt x z"
  by (cases x; cases y; cases z) simp_all

lemma best_score_foldl:
  "best_score (foldl record_result opt rs) = best_score opt
   \<or> flt (best_score opt) (best_score (foldl record_result opt rs))"
proof (induction rs arbitrary: opt)
  case Nil
  show ?case by simp
next
  case (Cons r rs)
  from Cons.IH [of "record_result opt r"] best_score_record_result [of opt r]
  show ?case by (auto intro: flt_trans)
qed

text \<open>
  Claim C6, as amended. For a freshly constructed optimizer whose grid search returns:
  \<^verbatim>\<open>all_results\<close> has as many entries as the product of the numbers of candidate
  values, and its entries are the points of the grid in the order of the product.
  When no score is NaN: if some score is above \<open>-inf\<close>, \<^verbatim>\<open>best_score\<close> is the greatest
  score and \<^verbatim>\<open>best_params\<close> are the parameters of the first point that reaches it;
  if none is (as for an empty grid), \<^verbatim>\<open>best_score\<close> is \<open>-inf\<close> and \<^verbatim>\<open>best_params\<close> is
  \<^verbatim>\<open>None\<close>.
\<close>

theorem grid_search_contract:
  assumes "grid_search (new_optimizer eng objective) sc grid q = (Inr res, opt')"
  shows "length (all_results res) = prod_list (map (\<lambda>kv. length (snd kv)) grid)
    \<and> map ev_params (all_results res)
        = map (zip (map fst grid)) (itertools_product (map snd grid))
    \<and> ((\<forall>r \<in> set (all_results res). \<not> is_nan (ev_score r)) \<longrightarrow>
         (if \<forall>r \<in> set (all_results res). ev_score r = NInf
          then gr_best_score res = NInf \<and> gr_best_params res = None
          else \<exists>i < length (all_results res).
                 ev_score (all_results res ! i) = gr_best_score res
               \<and> (\<forall>j < i. flt (ev_score (all_results res ! j)) (gr_best_score res))
               \<and> (\<forall>r \<in> set (all_results res). fle (ev_score r) (gr_best_score res))
               \<and> gr_best_params res = Some (ev_params (all_results res ! i))))"
proof -
  let ?new = "new_optimizer eng objective :: 'a optimizer"
  from grid_search_returns [OF assms] obtain rs where
    sub: "submit_all ?new sc grid q = map Inr rs"
    and opt': "opt' = foldl record_result ?new rs"
    and all: "all_results res = rs"
    and bs: "gr_best_score res = best_score opt'"
    and bp: "gr_best_params res = best_params opt'"
    by (auto simp: new_optimizer_def)
  have "length (map ev_params rs) = length (itertools_product (map snd grid))"
    using submit_all_params [OF sub] by (metis length_map)
  then have len: "length (all_results res) = prod_list (map (\<lambda>kv. length (snd kv)) grid)"
    using all by (simp add: length_itertools_product comp_def)
  have order: "map ev_params (all_results res)
      = map (zip (map fst grid)) (itertools_product (map snd grid))"
    using submit_all_params [OF sub] all by simp
  have best: "if \<forall>r \<in> set (all_results res). ev_score r = NInf
          then gr_best_score res = NInf \<and> gr_best_params res = None
          else \<exists>i < length (all_results res).
                 ev_score (all_results res ! i) = gr_best_score res
               \<and> (\<forall>j < i. flt (ev_score (all_results res ! j)) (gr_best_score res))
               \<and> (\<forall>r \<in> set (all_results res). fle (ev_score r) (gr_best_score res))
               \<and> gr_best_params res = Some (ev_params (all_results res ! i))"
    if nonan: "\<forall>r \<in> set (all_results res). \<not> is_nan (ev_score r)"
  proof -
    have "first_best ?new" by (simp add: first_best_def new_optimizer_def)
    moreover have "\<forall>x \<in> set (opt_results ?new @ rs). \<not> is_nan (ev_score x)"
      using nonan all by (simp add: new_optimizer_def)
    ultimately have "first_best opt'" unfolding opt' by (rule first_best_foldl)
    moreover have "opt_results opt' = all_results res"
      using all opt' by (simp add: opt_results_foldl new_optimizer_def)
    ultimately show ?thesis using bs bp
      by (simp add: first_best_def split: if_splits)
  qed
  from len order best show ?thesis by blast
qed

theorem grid_search_contract_witness:
  "length (all_results (projr (fst (grid_search
      (new_optimizer (example_engine (price_table [100, 110]) 10000 (1 / 1000)) ''win_rate'')
      example_class [(''trades'', [0, 1]), (''tag'', [7, 8])] example_query)))) = 4
   \<and> gr_best_score (projr (fst (grid_search
      (new_optimizer (example_engine (price_table [100, 110]) 10000 (1 / 1000)) ''win_rate'')
      example_class [(''trades'', [0, 1]), (''tag'', [7, 8])] example_query))) = Fin 1
   \<and> gr_best_params (projr (fst (grid_search
      (new_optimizer (example_engine (price_table [100, 110]) 10000 (1 / 1000)) ''win_rate'')
      example_class [(''trades'', [0, 1]), (''tag'', [7, 8])] example_query)))
       = Some [(''trades'', 1), (''tag'', 7)]"
proof -
  let ?g = "grid_search
      (new_optimizer (example_engine (price_table [100, 110]) 10000 (1 / 1000)) ''win_rate'')
      example_class [(''trades'', [0, 1]), (''tag'', [7, 8])] example_query"
  have run: "?g = (Inr (projr (fst ?g)), snd ?g)"
    by (simp add: grid_eval run_eval trade_eval metric_eval)
  have best: "gr_best_score (projr (fst ?g)) = Fin 1
      \<and> gr_best_params (projr (fst ?g)) = Some [(''trades'', 1), (''tag'', 7)]"
    by (simp add: grid_eval run_eval trade_eval metric_eval)
  from grid_search_contract [OF run] best show ?thesis by simp
qed

text \<open>
  Claim C6 as stated fails. For a grid with a parameter without candidate values,
  \<^verbatim>\<open>all_results\<close> is empty, \<^verbatim>\<open>best_score\<close> is \<open>-inf\<close>, the score of no result, and
  \<^verbatim>\<open>best_params\<close> is \<^verbatim>\<open>None\<close>. For the one-point grid of a strategy that trades once on
  two bars, optimized for the Sharpe ratio, the only score is NaN (the deviation of a
  single return), \<^verbatim>\<open>best_score\<close> is \<open>-inf\<close> and \<^verbatim>\<open>best_params\<close> is \<^verbatim>\<open>None\<close>, not the
  parameters of the grid point.
\<close>

theorem grid_search_contract_counterexample:
  "fst (grid_search
      (new_optimizer (example_engine (price_table [100, 110]) 10000 (1 / 1000)) ''sharpe_ratio'')
      example_class [(''trades'', [])] example_query)
     = Inr \<lparr>gr_best_params = None, gr_best_score = NInf, all_results = []\<rparr>
   \<and> map ev_score (all_results (projr (fst (grid_search
      (new_optimizer (example_engine (price_table [100, 110]) 10000 (1 / 1000)) ''sharpe_ratio'')
      example_class [(''trades'', [1])] example_query)))) = [NaN]
   \<and> gr_best_score (projr (fst (grid_search
      (new_optimizer (example_engine (price_table [100, 110]) 10000 (1 / 1000)) ''sharpe_ratio'')
      example_class [(''trades'', [1])] example_query))) = NInf
   \<and> gr_best_params (projr (fst (grid_search
      (new_optimizer (example_engine (price_table [100, 110]) 10000 (1 / 1000)) ''sharpe_ratio'')
      example_class [(''trades'', [1])] example_query))) = None"
  by (simp add: grid_eval run_eval trade_eval metric_eval)

text \<open>
  Claim C10. For two consecutive grid searches on one optimizer that both return:
  the list the second call returns is the list the first call returned followed by the
  evaluations of the second call; the optimizer after the second call is the one that
  collecting the evaluations of both calls in one pass gives, so \<^verbatim>\<open>best_score\<close> and
  \<^verbatim>\<open>best_params\<close> of the second call are the running best over both; and the best
  score of the second call is the one of the first call or greater.
\<close>

theorem grid_search_accumulates:
  assumes "grid_search opt sc1 grid1 q1 = (Inr r1, opt1)"
    and "grid_search opt1 sc2 grid2 q2 = (Inr r2, opt2)"
  shows "\<exists>first second.
      submit_all opt sc1 grid1 q1 = map Inr first
    \<and> submit_all opt1 sc2 grid2 q2 = map Inr second
    \<and> all_results r1 = opt_results opt @ first
    \<and> all_results r2 = all_results r1 @ second
    \<and> opt2 = foldl record_result opt (first @ second)
    \<and> gr_best_score r2 = best_score (foldl record_result opt (first @ second))
    \<and> gr_best_params r2 = best_params (foldl record_result opt (first @ second))
    \<and> (gr_best_score r2 = gr_best_score r1 \<or> flt (gr_best_score r1) (gr_best_score r2))"
proof -
  from grid_search_returns [OF assms(1)] obtain first where
    a: "submit_all opt sc1 grid1 q1 = map Inr first" "opt1 = foldl record_result opt first"
      "all_results r1 = opt_results opt @ first" "gr_best_score r1 = best_score opt1"
    by blast
  from grid_search_returns [OF assms(2)] obtain second where
    b: "submit_all opt1 sc2 grid2 q2 = map Inr second" "opt2 = foldl record_result opt1 second"
      "all_results r2 = opt_results opt1 @ second" "gr_best_score r2 = best_score opt2"
      "gr_best_params r2 = best_params opt2"
    by blast
  have c: "opt2 = foldl record_result opt (first @ second)" using a b by simp
  have d: "opt_results opt1 = all_results r1" using a by (simp add: opt_results_foldl)
  have e: "gr_best_score r2 = gr_best_score r1 \<or> flt (gr_best_score r1) (gr_best_score r2)"
    using best_score_foldl [of opt1 second] a b by simp
  from a b c d e show ?thesis by (intro exI [of _ first] exI [of _ second]) simp
qed

theorem grid_search_accumulates_witness:
  "length (all_results (projr (fst (grid_search
      (snd (grid_search
        (new_optimizer (example_engine (price_table [100, 110]) 10000 (1 / 1000)) ''win_rate'')
        example_class [(''trades'', [1])] example_query))
      example_class [(''trades'', [0])] example_query)))) = 2
   \<and> gr_best_score (projr (fst (grid_search
      (snd (grid_search
        (new_optimizer (example_engine (price_table [100, 110]) 10000 (1 / 1000)) ''win_rate'')
        example_class [(''trades'', [1])] example_query))
      example_class [(''trades'', [0])] example_query))) = Fin 1
   \<and> gr_best_params (projr (fst (grid_search
      (snd (grid_search
        (new_optimizer (example_engine (price_table [100, 110]) 10000 (1 / 1000)) ''win_rate'')
        example_class [(''trades'', [1])] example_query))
      example_class [(''trades'', [0])] example_query))) = Some [(''trades'', 1)]"
proof -
  let ?opt = "new_optimizer (example_engine (price_table [100, 110]) 10000 (1 / 1000)) ''win_rate''
    :: nat optimizer"
  let ?g1 = "grid_search ?opt example_class [(''trades'', [1])] example_query"
  let ?g2 = "grid_search (snd ?g1) example_class [(''trades'', [0])] example_query"
  have run1: "?g1 = (Inr (projr (fst ?g1)), snd ?g1)"
    by (simp add: grid_eval run_eval trade_eval metric_eval)
  have run2: "?g2 = (Inr (projr (fst ?g2)), snd ?g2)"
    by (simp add: grid_eval run_eval trade_eval metric_eval)
  have first: "length (all_results (projr (fst ?g1))) = 1"
    by (simp add: grid_eval run_eval trade_eval metric_eval)
  have second: "length (submit_all (snd ?g1) example_class [(''trades'', [0])] example_query) = 1"
    by (simp add: submit_all_def)
  have best: "gr_best_score (projr (fst ?g2)) = Fin 1
      \<and> gr_best_params (projr (fst ?g2)) = Some [(''trades'', 1)]"
    by (simp add: grid_eval run_eval trade_eval metric_eval)
  from grid_search_accumulates [OF run1 run2] obtain a b where
    "submit_all (snd ?g1) example_class [(''trades'', [0])] example_query = map Inr b"
    "all_results (projr (fst ?g2)) = all_results (projr (fst ?g1)) @ b"
    by blast
  with first second have "length (all_results (projr (fst ?g2))) = 2" by simp
  with best show ?thesis by simp
qed

section \<open>A Monte Carlo trial\<close>

lemma length_create_simulated_prices:
  "length (create_simulated_prices p rets) = Suc (length rets)"
proof -
  have "length (foldl (\<lambda>prices ret. prices @ [fmul (last prices) (fadd (Fin 1) ret)]) acc rets)
      = length acc + length rets" for acc
    by (induction rets arbitrary: acc) simp_all
  then show ?thesis by (simp add: create_simulated_prices_def)
qed

lemma simulation_trial_raises:
  "length picks = length data \<Longrightarrow> \<exists>e. simulation_trial data picks = Inl e \<and> (data \<noteq> [] \<longrightarrow> e = ValueError)"
  by (cases data)
    (simp_all add: simulation_trial_def Let_def length_create_simulated_prices
      generate_random_returns_def)

text \<open>
  Claim C7. The claim is that each trial builds a synthetic close series as long as the
  historical series and runs a full backtest on it. The code does not: the price path
  starts with the initial price and gets one more price per resampled return, so for a
  frame of \<open>n\<close> rows (and \<open>n\<close> resampled returns) it has \<open>n + 1\<close> prices. Setting the
  close column of the frame of three rows to the four prices raises \<open>ValueError\<close>, the
  trial produces no equity curve and no metrics, and the simulation ends with this
  exception.
\<close>

theorem simulated_prices_too_long:
  "length (create_simulated_prices (Fin (bar_close first))
      (generate_random_returns (map returns (first # rest)) picks)) = length picks + 1
   \<and> simulation_trial (price_rows [100, 110, 121]) [1, 2, 1] = Inl ValueError
   \<and> run_simulation (example_engine (price_table [100, 110, 121]) 10000 (1 / 1000))
        example_query [[1, 2, 1]] = Inl ValueError"
  by (simp add: length_create_simulated_prices generate_random_returns_def simulation_trial_def
      run_simulation_def run_eval)

section \<open>The maximum drawdown\<close>

text \<open>
  Claim C8. The claim is that for every run with at least two trades the reported
  maximum drawdown is the least value of (cumulative return - running maximum) /
  running maximum and is at most 0. The code divides by a running maximum that is 0
  as long as the equity has not moved: with no commission and two equal closes, a
  purchase and a sale give two trades, the single return 0, the single drawdown value
  0 / 0, and the reported maximum drawdown is NaN, which is not at most 0.
\<close>

theorem max_drawdown_flat_run:
  "length (res_trades (fst (projr (fst (run_backtest
      (example_engine (price_table [100, 100]) 10000 0) (scripted [''buy'', ''sell''])
      example_query))))) = 2
   \<and> res_returns (fst (projr (fst (run_backtest
      (example_engine (price_table [100, 100]) 10000 0) (scripted [''buy'', ''sell''])
      example_query)))) = [Fin 0]
   \<and> max_drawdown (res_metrics (fst (projr (fst (run_backtest
      (example_engine (price_table [100, 100]) 10000 0) (scripted [''buy'', ''sell''])
      example_query))))) = NaN
   \<and> \<not> fle NaN (Fin 0)"
  by (simp add: run_eval trade_eval metric_eval)

section \<open>Sales and the win rate\<close>

lemma sells_linked_append:
  assumes old: "\<forall>j < length ts. trade_type (ts ! j) = ''sell'' \<longrightarrow>
          0 < j \<and> 0 < trade_size (ts ! j)
        \<and> trade_capital (ts ! j)
            = trade_capital (ts ! (j - 1)) + trade_size (ts ! j) * trade_price (ts ! j) * (1 - c)"
    and new: "trade_type t = ''sell'' \<longrightarrow>
          ts \<noteq> [] \<and> 0 < trade_size t
        \<and> trade_capital t = trade_capital (last ts) + trade_size t * trade_price t * (1 - c)"
  shows "\<forall>j < length (ts @ [t]). trade_type ((ts @ [t]) ! j) = ''sell'' \<longrightarrow>
          0 < j \<and> 0 < trade_size ((ts @ [t]) ! j)
        \<and> trade_capital ((ts @ [t]) ! j)
            = trade_capital ((ts @ [t]) ! (j - 1))
              + trade_size ((ts @ [t]) ! j) * trade_price ((ts @ [t]) ! j) * (1 - c)"
proof (intro allI impI)
  fix j
  assume j: "j < length (ts @ [t])" and sell: "trade_type ((ts @ [t]) ! j) = ''sell''"
  show "0 < j \<and> 0 < trade_size ((ts @ [t]) ! j)
        \<and> trade_capital ((ts @ [t]) ! j)
            = trade_capital ((ts @ [t]) ! (j - 1))
              + trade_size ((ts @ [t]) ! j) * trade_price ((ts @ [t]) ! j) * (1 - c)"
  proof (cases "j < length ts")
    case True
    then have here: "(ts @ [t]) ! j = ts ! j" by (simp add: nth_append)
    from True have "j - 1 < length ts" by simp
    then have before: "(ts @ [t]) ! (j - 1) = ts ! (j - 1)" by (simp add: nth_append)
    from old True sell here have "0 < j \<and> 0 < trade_size (ts ! j)
        \<and> trade_capital (ts ! j)
            = trade_capital (ts ! (j - 1)) + trade_size (ts ! j) * trade_price (ts ! j) * (1 - c)"
      by simp
    with here before show ?thesis by simp
  next
    case False
    with j have jl: "j = length ts" by simp
    then have here: "(ts @ [t]) ! j = t" by simp
    with sell new have ne: "ts \<noteq> []" and size: "0 < trade_size t"
      and cap: "trade_capital t = trade_capital (last ts) + trade_size t * trade_price t * (1 - c)"
      by simp_all
    from ne jl have pos: "0 < j" by simp
    from ne jl have "(ts @ [t]) ! (j - 1) = last ts"
      by (simp add: nth_append last_conv_nth)
    with here pos size cap show ?thesis by simp
  qed
qed

lemma trades_ok_append:
  assumes ok: "trades_ok c s"
    and fresh: "trade_timestamp t \<notin> trade_timestamp ` set (trades s)"
    and cap: "trade_capital t = capital s'"
    and tr: "trades s' = trades s @ [t]"
    and link: "trade_type t = ''sell'' \<longrightarrow>
          trades s \<noteq> [] \<and> 0 < trade_size t
        \<and> trade_capital t = trade_capital (last (trades s)) + trade_size t * trade_price t * (1 - c)"
  shows "trades_ok c s'"
proof -
  from ok have old: "\<forall>j < length (trades s). trade_type (trades s ! j) = ''sell'' \<longrightarrow>
          0 < j \<and> 0 < trade_size (trades s ! j)
        \<and> trade_capital (trades s ! j)
            = trade_capital (trades s ! (j - 1))
              + trade_size (trades s ! j) * trade_price (trades s ! j) * (1 - c)"
    by (simp add: trades_ok_def)
  from ok fresh have d: "distinct (map trade_timestamp (trades s @ [t]))"
    by (simp add: trades_ok_def)
  note l = sells_linked_append [OF old link]
  show ?thesis
    unfolding trades_ok_def tr using d cap l by simp
qed

lemma execute_trade_ok:
  assumes ok: "trades_ok c s" and fresh: "ts \<notin> trade_timestamp ` set (trades s)"
  shows "trades_ok c (execute_trade c action ts price s)"
proof (cases "action = ''buy'' \<and> position s \<le> 0")
  case True
  let ?pos = "capital s / price"
  let ?cap = "capital s - ?pos * price * (1 + c)"
  let ?t = "\<lparr>trade_timestamp = ts, trade_type = ''buy'', trade_price = price,
      trade_size = ?pos, trade_capital = ?cap\<rparr>"
  let ?s' = "s\<lparr>capital := ?cap, position := ?pos, trades := trades s @ [?t]\<rparr>"
  have e: "execute_trade c action ts price s = ?s'"
    using True by (simp add: execute_trade_def Let_def)
  have "trades_ok c ?s'"
    by (rule trades_ok_append [OF ok, of ?t]) (simp_all add: fresh)
  with e show ?thesis by simp
next
  case nobuy: False
  show ?thesis
  proof (cases "action = ''sell'' \<and> 0 < position s")
    case True
    let ?cap = "capital s + position s * price * (1 - c)"
    let ?t = "\<lparr>trade_timestamp = ts, trade_type = ''sell'', trade_price = price,
        trade_size = position s, trade_capital = ?cap\<rparr>"
    let ?s' = "s\<lparr>capital := ?cap, position := 0, trades := trades s @ [?t]\<rparr>"
    have e: "execute_trade c action ts price s = ?s'"
      using True by (simp add: execute_trade_def Let_def)
    from ok True have ne: "trades s \<noteq> []" and last: "trade_capital (last (trades s)) = capital s"
      by (simp_all add: trades_ok_def)
    have "trades_ok c ?s'"
      by (rule trades_ok_append [OF ok, of ?t]) (simp_all add: fresh ne last True)
    with e show ?thesis by simp
  next
    case False
    with nobuy have "execute_trade c action ts price s = s"
      by (auto simp: execute_trade_def)
    with ok show ?thesis by simp
  qed
qed

lemma execute_trade_timestamps:
  "trade_timestamp ` set (trades (execute_trade c action ts price s))
     \<subseteq> insert ts (trade_timestamp ` set (trades s))"
  by (auto simp: execute_trade_def Let_def)

lemma fresh_timestamp:
  assumes "distinct (map f xs)" and "k < length xs"
  shows "f (xs ! k) \<notin> f ` set (take k xs)"
proof -
  from assms(2) have "map f xs = map f (take k xs) @ f (xs ! k) # map f (drop (Suc k) xs)"
    by (metis id_take_nth_drop list.simps(9) map_append)
  with assms(1) have "distinct (map f (take k xs) @ f (xs ! k) # map f (drop (Suc k) xs))"
    by (simp only:)
  then show ?thesis by simp
qed

lemma bar_step_trades:
  assumes "bar_step c data k (st, s) = Inr (st', s')"
  shows "\<exists>action. trades s' = trades (execute_trade c action (bar_timestamp (data ! k))
             (bar_close (data ! k)) s)
         \<and> capital s' = capital (execute_trade c action (bar_timestamp (data ! k))
             (bar_close (data ! k)) s)
         \<and> position s' = position (execute_trade c action (bar_timestamp (data ! k))
             (bar_close (data ! k)) s)"
  using assms by (auto simp: bar_step_def Let_def split: prod.splits sum.splits)

lemma trades_ok_cong:
  "trades s' = trades s \<Longrightarrow> capital s' = capital s \<Longrightarrow> position s' = position s \<Longrightarrow>
     trades_ok c s \<Longrightarrow> trades_ok c s'"
  by (simp add: trades_ok_def)

lemma loop_prefix_trades:
  assumes "distinct (map bar_timestamp data)"
  shows "loop_prefix ic c strat data k = Inr (st, s) \<Longrightarrow> k \<le> length data \<Longrightarrow>
     trades_ok c s \<and> trade_timestamp ` set (trades s) \<subseteq> bar_timestamp ` set (take k data)"
proof (induction k arbitrary: st s)
  case 0
  then show ?case by (auto simp: loop_prefix_def initial_loop_state_def trades_ok_def)
next
  case (Suc k)
  from Suc.prems obtain st0 s0 where
    prev: "loop_prefix ic c strat data k = Inr (st0, s0)"
    and step: "bar_step c data k (st0, s0) = Inr (st, s)"
    by (auto simp: loop_prefix_Suc split: sum.splits)
  from Suc.prems have k: "k < length data" by simp
  from Suc.IH [OF prev] k have ok0: "trades_ok c s0"
    and ts0: "trade_timestamp ` set (trades s0) \<subseteq> bar_timestamp ` set (take k data)"
    by simp_all
  let ?ts = "bar_timestamp (data ! k)"
  have fresh: "?ts \<notin> trade_timestamp ` set (trades s0)"
    using fresh_timestamp [OF assms k] ts0 by blast
  from bar_step_trades [OF step] obtain action where
    eq: "trades s = trades (execute_trade c action ?ts (bar_close (data ! k)) s0)"
      "capital s = capital (execute_trade c action ?ts (bar_close (data ! k)) s0)"
      "position s = position (execute_trade c action ?ts (bar_close (data ! k)) s0)"
    by blast
  have ok: "trades_ok c s"
    using trades_ok_cong [OF eq execute_trade_ok [OF ok0 fresh]] .
  have "trade_timestamp ` set (trades s) \<subseteq> insert ?ts (trade_timestamp ` set (trades s0))"
    using eq(1) execute_trade_timestamps by metis
  also have "\<dots> \<subseteq> insert ?ts (bar_timestamp ` set (take k data))" using ts0 by blast
  also have "\<dots> = bar_timestamp ` set (take (Suc k) data)"
    using k by (simp add: take_Suc_conv_app_nth)
  finally show ?case using ok by simp
qed

lemma drop_duplicated_fresh:
  "b \<in> set (drop_duplicated seen bs) \<Longrightarrow> bar_timestamp b \<notin> set seen"
proof (induction bs arbitrary: seen)
  case Nil
  then show ?case by simp
next
  case (Cons a bs)
  show ?case
  proof (cases "bar_timestamp a \<in> set seen")
    case True
    with Cons.prems have "b \<in> set (drop_duplicated seen bs)" by simp
    then show ?thesis by (rule Cons.IH)
  next
    case False
    with Cons.prems have "b = a \<or> b \<in> set (drop_duplicated (bar_timestamp a # seen) bs)"
      by simp
    then show ?thesis
    proof
      assume "b = a"
      with False show ?thesis by simp
    next
      assume "b \<in> set (drop_duplicated (bar_timestamp a # seen) bs)"
      then have "bar_timestamp b \<notin> set (bar_timestamp a # seen)" by (rule Cons.IH)
      then show ?thesis by simp
    qed
  qed
qed

lemma drop_duplicated_distinct:
  "distinct (map bar_timestamp (drop_duplicated seen bs))"
proof (induction bs arbitrary: seen)
  case Nil
  show ?case by simp
next
  case (Cons a bs)
  have "bar_timestamp a \<notin> bar_timestamp ` set (drop_duplicated (bar_timestamp a # seen) bs)"
  proof
    assume "bar_timestamp a \<in> bar_timestamp ` set (drop_duplicated (bar_timestamp a # seen) bs)"
    then obtain b where b: "b \<in> set (drop_duplicated (bar_timestamp a # seen) bs)"
      and eq: "bar_timestamp a = bar_timestamp b" by blast
    from drop_duplicated_fresh [OF b] eq show False by simp
  qed
  with Cons.IH show ?case by simp
qed

lemma add_columns_timestamps:
  "map bar_timestamp (map2 add_columns bs z) = map bar_timestamp (take (length z) bs)"
proof (induction bs arbitrary: z)
  case Nil
  show ?case by simp
next
  case (Cons b bs)
  show ?case
  proof (cases z)
    case Nil
    then show ?thesis by simp
  next
    case (Cons y ys)
    with Cons.IH [of ys] show ?thesis by (simp add: add_columns_def)
  qed
qed

lemma preprocess_data_distinct:
  assumes "preprocess_data raw = Inr data"
  shows "distinct (map bar_timestamp data)"
proof -
  let ?bs = "drop_duplicated [] (sort_key bar_timestamp (bars raw))"
  from assms obtain z where "data = map2 add_columns ?bs z"
    by (auto simp: preprocess_data_def Let_def split: if_splits)
  then have "map bar_timestamp data = map bar_timestamp (take (length z) ?bs)"
    by (simp only: add_columns_timestamps)
  then have "map bar_timestamp data = take (length z) (map bar_timestamp ?bs)"
    by (simp only: take_map)
  moreover have "distinct (map bar_timestamp ?bs)" by (rule drop_duplicated_distinct)
  ultimately show ?thesis by (simp only: distinct_take)
qed

lemma index_of_nth:
  "distinct xs \<Longrightarrow> j < length xs \<Longrightarrow> index_of xs (xs ! j) = j"
proof (induction xs arbitrary: j)
  case Nil
  then show ?case by simp
next
  case (Cons x xs)
  then show ?case by (cases j) auto
qed

lemma sum_list_zeros:
  fixes f :: "'a \<Rightarrow> real"
  assumes "\<forall>x \<in> set xs. f x = 0"
  shows "sum_list (map f xs) = 0"
  using assms by (induction xs) simp_all

lemma sells_not_below:
  assumes ok: "trades_ok c s" and price: "\<forall>t \<in> set (trades s). 0 < trade_price t"
    and c: "c \<le> 1" and t: "t \<in> set (trades s)" and sell: "trade_type t = ''sell''"
  shows "trade_capital (prev_trade (trades s) t) \<le> trade_capital t"
proof -
  from t obtain j where j: "j < length (trades s)" and tj: "trades s ! j = t"
    by (auto simp: in_set_conv_nth)
  from ok have "distinct (trades s)" by (simp add: trades_ok_def distinct_map)
  with j tj have idx: "index_of (trades s) t = j" using index_of_nth by blast
  from ok j tj sell have pos: "0 < j" and size: "0 < trade_size t"
    and cap: "trade_capital t = trade_capital (trades s ! (j - 1))
        + trade_size t * trade_price t * (1 - c)"
    by (auto simp: trades_ok_def)
  from price t have "0 < trade_price t" by simp
  with size c have "0 \<le> trade_size t * trade_price t * (1 - c)" by simp
  with cap idx pos show ?thesis by (simp add: prev_trade_def Let_def)
qed

text \<open>
  Claim C9, as amended. For every run that returns with at least two trades, all at a
  positive price, and with a commission of at most 1: there is a sale; no sale records
  a capital below the capital recorded by the trade before it, whether or not the round
  trip gained against the capital held before the purchase; the sales classified as
  losing are those that record the same capital, so the total loss is 0 and the
  profit factor is \<open>+inf\<close>; and the win rate is the share of the sales that record a
  greater capital. In the run below the purchase at 100 and the sale at 90 lose a
  tenth of the capital, and the sale is winning.
\<close>

theorem sells_never_lose:
  assumes "fst (run_backtest eng strat q) = Inr (r, strat')"
    and "2 \<le> length (res_trades r)"
    and "\<forall>t \<in> set (res_trades r). 0 < trade_price t"
    and "commission eng \<le> 1"
  shows "sell_trades (res_trades r) \<noteq> []
    \<and> (\<forall>t \<in> set (sell_trades (res_trades r)).
          \<not> trade_capital t < trade_capital (prev_trade (res_trades r) t))
    \<and> (\<forall>t \<in> set (losing_trades (res_trades r)).
          trade_capital t = trade_capital (prev_trade (res_trades r) t))
    \<and> profit_factor (res_metrics r) = PInf
    \<and> win_rate (res_metrics r)
        = Fin (real (length (winning_trades (res_trades r)))
            / real (length (sell_trades (res_trades r))))"
proof -
  from assms(1) obtain raw data s where
    pre: "preprocess_data raw = Inr data"
    and loop: "run_loop (initial_capital eng) (commission eng) strat data = Inr (strat', s)"
    and res: "build_results (name strat') q (initial_capital eng) s = Inr r"
    by (auto simp: run_backtest_def split: sum.splits prod.splits)
  from res obtain m where tr: "res_trades r = trades s"
    and met: "calculate_metrics (res_returns r) (trades s) = Inr m"
    and rm: "res_metrics r = m"
    by (auto simp: build_results_def Let_def split: if_splits sum.splits)
  from loop have "loop_prefix (initial_capital eng) (commission eng) strat data (length data)
      = Inr (strat', s)"
    by (simp add: run_loop_def loop_prefix_def)
  from loop_prefix_trades [OF preprocess_data_distinct [OF pre] this]
  have ok: "trades_ok (commission eng) s" by simp
  have notbelow: "trade_capital (prev_trade (trades s) t) \<le> trade_capital t"
    if "t \<in> set (trades s)" "trade_type t = ''sell''" for t
    using sells_not_below [OF ok _ assms(4) that] assms(3) tr by simp
  have a: "\<forall>t \<in> set (sell_trades (trades s)).
      \<not> trade_capital t < trade_capital (prev_trade (trades s) t)"
    using notbelow by (auto simp: sell_trades_def not_less)
  have b: "\<forall>t \<in> set (losing_trades (trades s)).
      trade_capital t = trade_capital (prev_trade (trades s) t)"
    using notbelow by (fastforce simp: losing_trades_def)
  then have "\<forall>t \<in> set (losing_trades (trades s)). trade_delta (trades s) t = 0"
    by (simp add: trade_delta_def)
  then have loss: "sum_list (map (trade_delta (trades s)) (losing_trades (trades s))) = 0"
    by (rule sum_list_zeros)
  from met assms(2) tr have sells: "sell_trades (trades s) \<noteq> []"
    and wr: "win_rate m = Fin (real (length (winning_trades (trades s)))
        / real (length (sell_trades (trades s))))"
    and pf: "profit_factor m =
        (if \<bar>sum_list (map (trade_delta (trades s)) (losing_trades (trades s)))\<bar> > 0
         then Fin (sum_list (map (trade_delta (trades s)) (winning_trades (trades s)))
           / \<bar>sum_list (map (trade_delta (trades s)) (losing_trades (trades s)))\<bar>)
         else PInf)"
    by (auto simp: calculate_metrics_def Let_def split: if_splits)
  from pf loss have "profit_factor m = PInf" by simp
  with sells a b wr tr rm show ?thesis by simp
qed

theorem sells_never_lose_witness:
  "win_rate (res_metrics (fst (projr (fst (run_backtest
      (example_engine (price_table [100, 90]) 10000 (1 / 1000)) (scripted [''buy'', ''sell''])
      example_query))))) = Fin 1
   \<and> profit_factor (res_metrics (fst (projr (fst (run_backtest
      (example_engine (price_table [100, 90]) 10000 (1 / 1000)) (scripted [''buy'', ''sell''])
      example_query))))) = PInf
   \<and> map trade_capital (res_trades (fst (projr (fst (run_backtest
      (example_engine (price_table [100, 90]) 10000 (1 / 1000)) (scripted [''buy'', ''sell''])
      example_query))))) = [- 10, 8981]
   \<and> res_final_capital (fst (projr (fst (run_backtest
      (example_engine (price_table [100, 90]) 10000 (1 / 1000)) (scripted [''buy'', ''sell''])
      example_query)))) = 8981"
proof -
  let ?eng = "example_engine (price_table [100, 90]) 10000 (1 / 1000)"
  let ?out = "fst (run_backtest ?eng (scripted [''buy'', ''sell'']) example_query)"
  have a: "?out = Inr (fst (projr ?out), snd (projr ?out))"
    by (simp add: run_eval trade_eval metric_eval)
  have b: "2 \<le> length (res_trades (fst (projr ?out)))"
    by (simp add: run_eval trade_eval metric_eval)
  have c: "\<forall>t \<in> set (res_trades (fst (projr ?out))). 0 < trade_price t"
    by (simp add: run_eval trade_eval metric_eval)
  have d: "commission ?eng \<le> 1" by (simp add: example_engine_def)
  have e: "map trade_capital (res_trades (fst (projr ?out))) = [- 10, 8981]
      \<and> res_final_capital (fst (projr ?out)) = 8981"
    by (simp add: run_eval trade_eval metric_eval)
  have f: "winning_trades (res_trades (fst (projr ?out)))
      = sell_trades (res_trades (fst (projr ?out)))"
    by (simp add: run_eval trade_eval metric_eval)
  from sells_never_lose [OF a b c d] e f show ?thesis by simp
qed

text \<open>
  Claim C9 as stated fails. With a commission of 1 the proceeds of a sale are 0: the
  purchase at 100 and the sale at 110, both at a positive price, record the capital
  \<open>-10000\<close>, the sale is not winning, and the reported win rate is 0.
\<close>

theorem sells_never_lose_counterexample:
  "map trade_price (res_trades (fst (projr (fst (run_backtest
      (example_engine (price_table [100, 110]) 10000 1) (scripted [''buy'', ''sell''])
      example_query))))) = [100, 110]
   \<and> map trade_capital (res_trades (fst (projr (fst (run_backtest
      (example_engine (price_table [100, 110]) 10000 1) (scripted [''buy'', ''sell''])
      example_query))))) = [- 10000, - 10000]
   \<and> winning_trades (res_trades (fst (projr (fst (run_backtest
      (example_engine (price_table [100, 110]) 10000 1) (scripted [''buy'', ''sell''])
      example_query))))) = []
   \<and> win_rate (res_metrics (fst (projr (fst (run_backtest
      (example_engine (price_table [100, 110]) 10000 1) (scripted [''buy'', ''sell''])
      example_query))))) = Fin 0"
  by (simp add: run_eval trade_eval metric_eval)

end
